theory Spec2Isabelle
  imports Main
begin

section \<open>Strings and regular expressions\<close>

text \<open>
  A JavaScript string is modelled as a \<^typ>\<open>string\<close>: the sequence of its code units,
  each below 256 (the Latin-1 range). \<open>length\<close> counts code units, as \<open>String.length\<close>
  does, and \<open>color[i]\<close> is the code unit at index \<open>i\<close>.

  The patterns of \<open>COLOR_PATTERNS\<close> use literals, character classes, grouping,
  alternation, \<open>?\<close>, \<open>*\<close> and bounded repetition, all between \<open>^\<close> and \<open>$\<close>. They are
  written as values of the datatype below; \<open>RegExp.prototype.test\<close> on such an anchored
  pattern answers whether the whole string belongs to the pattern, which the derivative
  matcher \<open>test\<close> computes.
\<close>

datatype regex =
    Nul
  | Eps
  | Cls "char list"
  | Seq regex regex
  | Alt regex regex
  | Star regex

fun nullable :: "regex \<Rightarrow> bool" where
  "nullable Nul = False"
| "nullable Eps = True"
| "nullable (Cls cs) = False"
| "nullable (Seq r s) = (nullable r \<and> nullable s)"
| "nullable (Alt r s) = (nullable r \<or> nullable s)"
| "nullable (Star r) = True"

fun deriv :: "char \<Rightarrow> regex \<Rightarrow> regex" where
  "deriv c Nul = Nul"
| "deriv c Eps = Nul"
| "deriv c (Cls cs) = (if c \<in> set cs then Eps else Nul)"
| "deriv c (Seq r s) =
     (if nullable r then Alt (Seq (deriv c r) s) (deriv c s) else Seq (deriv c r) s)"
| "deriv c (Alt r s) = Alt (deriv c r) (deriv c s)"
| "deriv c (Star r) = Seq (deriv c r) (Star r)"

fun test :: "regex \<Rightarrow> string \<Rightarrow> bool" where
  "test r [] = nullable r"
| "test r (c # cs) = test (deriv c r) cs"

text \<open>The derived forms of the pattern syntax: \<open>r?\<close>, \<open>r{n}\<close>, \<open>r{m,n}\<close>, a literal
  character, a sequence of items and a choice between items.\<close>

definition opt :: "regex \<Rightarrow> regex" where
  "opt r = Alt r Eps"

fun times :: "nat \<Rightarrow> regex \<Rightarrow> regex" where
  "times 0 r = Eps"
| "times (Suc n) r = Seq r (times n r)"

fun upto :: "nat \<Rightarrow> regex \<Rightarrow> regex" where
  "upto 0 r = Eps"
| "upto (Suc n) r = opt (Seq r (upto n r))"

definition rep :: "nat \<Rightarrow> nat \<Rightarrow> regex \<Rightarrow> regex" where
  "rep m n r = Seq (times m r) (upto (n - m) r)"

definition chr :: "char \<Rightarrow> regex" where
  "chr c = Cls [c]"

fun seqs :: "regex list \<Rightarrow> regex" where
  "seqs [] = Eps"
| "seqs (r # rs) = Seq r (seqs rs)"

fun alts :: "regex list \<Rightarrow> regex" where
  "alts [] = Nul"
| "alts (r # rs) = Alt r (alts rs)"

definition upper_ascii :: "char \<Rightarrow> char" where
  "upper_ascii c =
     (case map_of (zip ''abcdefghijklmnopqrstuvwxyz'' ''ABCDEFGHIJKLMNOPQRSTUVWXYZ'') c of
        Some u \<Rightarrow> u
      | None \<Rightarrow> c)"

definition lower_char :: "char \<Rightarrow> char" where
  "lower_char c =
     (case map_of (zip ''ABCDEFGHIJKLMNOPQRSTUVWXYZ'' ''abcdefghijklmnopqrstuvwxyz'') c of
        Some l \<Rightarrow> l
      | None \<Rightarrow>
          (let n = (of_char c :: nat) in
           if 192 \<le> n \<and> n \<le> 222 \<and> n \<noteq> 215 then char_of (n + 32) else c))"

text \<open>\<open>String.prototype.toLowerCase\<close> on code units below 256: the letters \<open>A\<close>-\<open>Z\<close> and
  the upper-case letters of Latin-1 (\<open>0xC0\<close>-\<open>0xDE\<close> without the multiplication sign) move
  up by 32, every other code unit stays.\<close>

definition toLowerCase :: "string \<Rightarrow> string" where
  "toLowerCase s = map lower_char s"

text \<open>A word under the \<open>i\<close> flag: each letter of the pattern matches itself and its
  other case.\<close>

definition lit_i :: "string \<Rightarrow> regex" where
  "lit_i w = seqs (map (\<lambda>c. Cls [c, upper_ascii c]) w)"

definition digit :: regex where
  "digit = Cls ''0123456789''"

definition hexdigit :: regex where
  "hexdigit = Cls ''ABCDEFabcdef0123456789''"

text \<open>\<open>\s\<close>: tab, line feed, vertical tab, form feed, carriage return, space and the
  no-break space \<open>0xA0\<close> (the white space and line terminators below 256).\<close>

definition ws :: regex where
  "ws = Cls [CHR 0x09, CHR 0x0A, CHR 0x0B, CHR 0x0C, CHR 0x0D, CHR '' '', CHR 0xA0]"

section \<open>Color validation (colorValidationUtils)\<close>

text \<open>\<open>[01]?\.?\d*\<close>, the alpha group shared by the rgb and hsl patterns.\<close>

definition alpha_pattern :: regex where
  "alpha_pattern = seqs [opt (Cls ''01''), opt (chr CHR ''.''), Star digit]"

text \<open>\<open>/^#([A-Fa-f0-9]{3}|[A-Fa-f0-9]{6})$/\<close>\<close>

definition COLOR_PATTERNS_hex :: regex where
  "COLOR_PATTERNS_hex = seqs [chr CHR ''#'', Alt (times 3 hexdigit) (times 6 hexdigit)]"

text \<open>\<open>/^rgba?\(\s*(\d{1,3}%?)\s*,\s*(\d{1,3}%?)\s*,\s*(\d{1,3}%?)\s*(?:,\s*([01]?\.?\d*)\s*)?\)$/\<close>\<close>

definition COLOR_PATTERNS_rgb :: regex where
  "COLOR_PATTERNS_rgb = seqs
     [chr CHR ''r'', chr CHR ''g'', chr CHR ''b'', opt (chr CHR ''a''), chr CHR ''('',
      Star ws, rep 1 3 digit, opt (chr CHR ''%''), Star ws, chr CHR '','',
      Star ws, rep 1 3 digit, opt (chr CHR ''%''), Star ws, chr CHR '','',
      Star ws, rep 1 3 digit, opt (chr CHR ''%''), Star ws,
      opt (seqs [chr CHR '','', Star ws, alpha_pattern, Star ws]),
      chr CHR '')'']"

text \<open>\<open>/^hsla?\(\s*(\d{1,3})\s*,\s*(\d{1,3}%)\s*,\s*(\d{1,3}%)\s*(?:,\s*([01]?\.?\d*)\s*)?\)$/\<close>\<close>

definition COLOR_PATTERNS_hsl :: regex where
  "COLOR_PATTERNS_hsl = seqs
     [chr CHR ''h'', chr CHR ''s'', chr CHR ''l'', opt (chr CHR ''a''), chr CHR ''('',
      Star ws, rep 1 3 digit, Star ws, chr CHR '','',
      Star ws, rep 1 3 digit, chr CHR ''%'', Star ws, chr CHR '','',
      Star ws, rep 1 3 digit, chr CHR ''%'', Star ws,
      opt (seqs [chr CHR '','', Star ws, alpha_pattern, Star ws]),
      chr CHR '')'']"

text \<open>\<open>/^(red|blue|...|currentcolor)$/i\<close>\<close>

definition COLOR_PATTERNS_named :: regex where
  "COLOR_PATTERNS_named = alts (map lit_i
     [''red'', ''blue'', ''green'', ''yellow'', ''orange'', ''purple'', ''pink'', ''brown'',
      ''black'', ''white'', ''gray'', ''grey'', ''transparent'', ''inherit'', ''initial'',
      ''unset'', ''currentcolor''])"

text \<open>\<open>color.match(/\d+/g)\<close>: the maximal runs of decimal digits, left to right, or
  \<open>null\<close> (here \<open>None\<close>) when there is none. \<open>runs cur s\<close> scans \<open>s\<close> with the run
  \<open>cur\<close> open.\<close>

definition is_digit :: "char \<Rightarrow> bool" where
  "is_digit c = (c \<in> set ''0123456789'')"

fun runs :: "string \<Rightarrow> string \<Rightarrow> string list" where
  "runs cur [] = (if cur = [] then [] else [cur])"
| "runs cur (c # cs) =
     (if is_digit c then runs (cur @ [c]) cs
      else if cur = [] then runs [] cs
      else cur # runs [] cs)"

definition match_digits :: "string \<Rightarrow> string list option" where
  "match_digits s = (let m = runs [] s in if m = [] then None else Some m)"

text \<open>\<open>Number\<close> on a string of decimal digits.\<close>

definition Number :: "string \<Rightarrow> nat" where
  "Number s = foldl (\<lambda>n c. 10 * n + ((of_char c :: nat) - 48)) 0 s"

definition isValidHexColor :: "string \<Rightarrow> bool" where
  "isValidHexColor color = test COLOR_PATTERNS_hex color"

definition isValidRgbColor :: "string \<Rightarrow> bool" where
  "isValidRgbColor color =
     (if \<not> test COLOR_PATTERNS_rgb color then False
      else case match_digits color of
        None \<Rightarrow> False
      | Some m \<Rightarrow>
          if length m < 3 then False
          else let r = Number (m ! 0); g = Number (m ! 1); b = Number (m ! 2)
               in 0 \<le> r \<and> r \<le> 255 \<and> 0 \<le> g \<and> g \<le> 255 \<and> 0 \<le> b \<and> b \<le> 255)"

definition isValidHslColor :: "string \<Rightarrow> bool" where
  "isValidHslColor color =
     (if \<not> test COLOR_PATTERNS_hsl color then False
      else case match_digits color of
        None \<Rightarrow> False
      | Some m \<Rightarrow>
          if length m < 3 then False
          else let h = Number (m ! 0); s = Number (m ! 1); l = Number (m ! 2)
               in 0 \<le> h \<and> h \<le> 360 \<and> 0 \<le> s \<and> s \<le> 100 \<and> 0 \<le> l \<and> l \<le> 100)"

definition isValidNamedColor :: "string \<Rightarrow> bool" where
  "isValidNamedColor color = test COLOR_PATTERNS_named color"

definition isValidColor :: "string \<Rightarrow> bool" where
  "isValidColor color =
     (isValidHexColor color \<or> isValidRgbColor color \<or> isValidHslColor color
      \<or> isValidNamedColor color)"

definition getColorFormat :: "string \<Rightarrow> string" where
  "getColorFormat color =
     (if isValidHexColor color then ''hex''
      else if isValidRgbColor color then ''rgb''
      else if isValidHslColor color then ''hsl''
      else if isValidNamedColor color then ''named''
      else ''unknown'')"

definition normalizeColor :: "string \<Rightarrow> string" where
  "normalizeColor color =
     (if \<not> isValidColor color then color
      else if isValidHexColor color \<and> length color = 4 then
        (let r = color ! 1; g = color ! 2; b = color ! 3
         in [CHR ''#'', r, r, g, g, b, b])
      else toLowerCase color)"

section \<open>Language of a pattern\<close>

text \<open>The set of strings a pattern denotes; \<open>test\<close> decides membership in it.\<close>

definition conc :: "string set \<Rightarrow> string set \<Rightarrow> string set" where
  "conc A B = {u @ v | u v. u \<in> A \<and> v \<in> B}"

inductive_set star :: "string set \<Rightarrow> string set" for A :: "string set" where
  star_empty: "[] \<in> star A"
| star_step: "u \<in> A \<Longrightarrow> v \<in> star A \<Longrightarrow> u @ v \<in> star A"

fun lang :: "regex \<Rightarrow> string set" where
  "lang Nul = {}"
| "lang Eps = {[]}"
| "lang (Cls cs) = {[c] | c. c \<in> set cs}"
| "lang (Seq r s) = conc (lang r) (lang s)"
| "lang (Alt r s) = lang r \<union> lang s"
| "lang (Star r) = star (lang r)"

text \<open>The code units that can occur in a string of the pattern.\<close>

fun alphabet :: "regex \<Rightarrow> char set" where
  "alphabet Nul = {}"
| "alphabet Eps = {}"
| "alphabet (Cls cs) = set cs"
| "alphabet (Seq r s) = alphabet r \<union> alphabet s"
| "alphabet (Alt r s) = alphabet r \<union> alphabet s"
| "alphabet (Star r) = alphabet r"

section \<open>Design tokens and the resolvers\<close>

text \<open>
  A JavaScript object is the list of its own properties, and a token table is a plain
  object: what it does not own it inherits from \<open>Object.prototype\<close>. \<open>property\<close> is the
  read of a name written in the source (\<open>tokens.colors.textPrimary\<close>,
  \<open>tokens.typography.bodyLarge\<close>) or of a name known to be a color variant: none of
  these is a name of \<open>Object.prototype\<close>, so the read gives the own property or
  \<open>undefined\<close>, here \<open>None\<close>. \<open>member\<close> is the read of a computed name,
  \<open>tokens.typography[variant]\<close>: the own property, else the function or object that
  \<open>Object.prototype\<close> has under that name, else \<open>undefined\<close>.
  \<open>fontSize\<close> is restricted to integers.
  The fields of \<open>DesignTokens\<close> other than \<open>colors\<close> and \<open>typography\<close> are never read;
  they live in the extension slot of the record. A \<open>null\<close> or \<open>undefined\<close> table, and
  a \<open>null\<close> or \<open>undefined\<close> \<open>colors\<close> or \<open>typography\<close> field, is \<open>None\<close>.
\<close>

type_synonym 'a object = "(string \<times> 'a) list"

definition property :: "'a object \<Rightarrow> string \<Rightarrow> 'a option" where
  "property obj name = map_of obj name"

definition Object_prototype :: "string list" where
  "Object_prototype =
     [''constructor'', ''__defineGetter__'', ''__defineSetter__'', ''hasOwnProperty'',
      ''__lookupGetter__'', ''__lookupSetter__'', ''isPrototypeOf'', ''propertyIsEnumerable'',
      ''toString'', ''valueOf'', ''__proto__'', ''toLocaleString'']"

datatype 'a member = Undefined | Own 'a | Inherited string

definition member :: "'a object \<Rightarrow> string \<Rightarrow> 'a member" where
  "member obj name =
     (case map_of obj name of
        Some v \<Rightarrow> Own v
      | None \<Rightarrow> if name \<in> set Object_prototype then Inherited name else Undefined)"

definition Object_keys :: "'a object \<Rightarrow> string list" where
  "Object_keys obj = remdups (map fst obj)"

record TextStyle =
  fontSize :: int
  fontWeight :: string

record DesignTokens =
  colors :: "string object option"
  typography :: "TextStyle object option"

text \<open>\<open>Error msg\<close> is \<open>new Error(msg)\<close>; \<open>TypeError\<close> is what reading a property of
  \<open>null\<close> or \<open>undefined\<close> throws.\<close>

datatype error = Error string | TypeError

text \<open>Numbers in a template literal.\<close>

definition digit_char :: "nat \<Rightarrow> char" where
  "digit_char n = char_of (48 + n)"

function show_nat :: "nat \<Rightarrow> string" where
  "show_nat n = (if n < 10 then [digit_char n] else show_nat (n div 10) @ [digit_char (n mod 10)])"
  by pat_completeness auto
termination
  by (relation "measure (\<lambda>n. n)") auto

declare show_nat.simps [simp del]

definition show_int :: "int \<Rightarrow> string" where
  "show_int i = (if i < 0 then CHR ''-'' # show_nat (nat (- i)) else show_nat (nat i))"

subsection \<open>textStyleUtils\<close>

text \<open>\<open>tokens.typography[variant] || tokens.typography.bodyLarge\<close>: a style object is
  truthy, and so is every function and object of \<open>Object.prototype\<close>; only \<open>undefined\<close>
  falls through to the \<open>bodyLarge\<close> entry.\<close>

definition MaterialTypographyMapper_getStyle ::
  "string \<Rightarrow> 'z DesignTokens_scheme \<Rightarrow> error + TextStyle member" where
  "MaterialTypographyMapper_getStyle variant tokens =
     (case typography tokens of
        None \<Rightarrow> Inl TypeError
      | Some ty \<Rightarrow>
          (case member ty variant of
             Undefined \<Rightarrow> Inr (member ty ''bodyLarge'')
           | Own style \<Rightarrow> Inr (Own style)
           | Inherited name \<Rightarrow> Inr (Inherited name)))"

type_synonym typographyCache = "string \<rightharpoonup> TextStyle member"

definition clearTypographyCache :: "typographyCache \<Rightarrow> typographyCache" where
  "clearTypographyCache cache = Map.empty"

text \<open>\<open>`${variant}_${Object.keys(tokens.typography).length}_${tokens.typography.bodyLarge?.fontSize || 16}`\<close>\<close>

definition typographyCacheKey :: "string \<Rightarrow> TextStyle object \<Rightarrow> string" where
  "typographyCacheKey variant ty =
     variant @ ''_'' @ show_nat (length (Object_keys ty)) @ ''_'' @
     show_int (case property ty ''bodyLarge'' of
                 None \<Rightarrow> 16
               | Some b \<Rightarrow> if fontSize b = 0 then 16 else fontSize b)"

definition getTextStyle ::
  "string \<Rightarrow> 'z DesignTokens_scheme option \<Rightarrow> typographyCache
     \<Rightarrow> (error + TextStyle member) \<times> typographyCache" where
  "getTextStyle variant tokens cache =
     (case tokens of
        None \<Rightarrow>
          (Inl (Error ''Invalid design tokens: tokens and tokens.typography are required''), cache)
      | Some t \<Rightarrow>
          (case typography t of
             None \<Rightarrow>
               (Inl (Error ''Invalid design tokens: tokens and tokens.typography are required''),
                cache)
           | Some ty \<Rightarrow>
               (let cacheKey = typographyCacheKey variant ty in
                case cache cacheKey of
                  Some cached \<Rightarrow> (Inr cached, cache)
                | None \<Rightarrow>
                    (case MaterialTypographyMapper_getStyle variant t of
                       Inl e \<Rightarrow> (Inl e, cache)
                     | Inr resolvedStyle \<Rightarrow>
                         (Inr resolvedStyle, cache(cacheKey \<mapsto> resolvedStyle))))))"

subsection \<open>textColorUtils, the memoizing module\<close>

definition COLOR_VARIANT_SET :: "string list" where
  "COLOR_VARIANT_SET =
     [''textPrimary'', ''textSecondary'', ''textTertiary'', ''textDisabled'', ''textInverse'',
      ''onSurface'', ''onBackground'', ''onPrimary'', ''onSecondary'', ''onSuccess'',
      ''onError'', ''onWarning'', ''onInfo'', ''success'', ''error'', ''warning'', ''info'',
      ''primary'', ''secondary'', ''tertiary'', ''disabled'', ''inverse'', ''surfaceVariant'']"

definition isColorVariant :: "string \<Rightarrow> bool" where
  "isColorVariant v = (v \<in> set COLOR_VARIANT_SET)"

text \<open>\<open>tokens.colors.name\<close>\<close>

definition colors_field :: "'z DesignTokens_scheme \<Rightarrow> string \<Rightarrow> error + string option" where
  "colors_field tokens name =
     (case colors tokens of None \<Rightarrow> Inl TypeError | Some cs \<Rightarrow> Inr (property cs name))"

text \<open>The \<open>switch\<close> of \<open>MaterialColorMapper.getColor\<close>; the warning the default branch
  logs outside production builds is not modelled.\<close>

definition MaterialColorMapper_getColor ::
  "string \<Rightarrow> 'z DesignTokens_scheme \<Rightarrow> error + string option" where
  "MaterialColorMapper_getColor color tokens =
     (if color = ''textPrimary'' then colors_field tokens ''textPrimary''
      else if color = ''textSecondary'' then colors_field tokens ''textSecondary''
      else if color = ''textTertiary'' then colors_field tokens ''textTertiary''
      else if color = ''textDisabled'' then colors_field tokens ''textDisabled''
      else if color = ''textInverse'' then colors_field tokens ''textInverse''
      else if color = ''onSurface'' then colors_field tokens ''onSurface''
      else if color = ''onBackground'' then colors_field tokens ''onBackground''
      else if color = ''onPrimary'' then colors_field tokens ''onPrimary''
      else if color = ''onSecondary'' then colors_field tokens ''onSecondary''
      else if color = ''onSuccess'' then colors_field tokens ''onSuccess''
      else if color = ''onError'' then colors_field tokens ''onError''
      else if color = ''onWarning'' then colors_field tokens ''onWarning''
      else if color = ''onInfo'' then colors_field tokens ''onInfo''
      else if color = ''success'' then colors_field tokens ''success''
      else if color = ''error'' then colors_field tokens ''error''
      else if color = ''warning'' then colors_field tokens ''warning''
      else if color = ''info'' then colors_field tokens ''info''
      else if color = ''primary'' then colors_field tokens ''textPrimary''
      else if color = ''secondary'' then colors_field tokens ''textSecondary''
      else if color = ''tertiary'' then colors_field tokens ''textTertiary''
      else if color = ''disabled'' then colors_field tokens ''textDisabled''
      else if color = ''inverse'' then colors_field tokens ''textInverse''
      else if color = ''surfaceVariant'' then colors_field tokens ''textSecondary''
      else colors_field tokens ''textPrimary'')"

type_synonym colorCache = "string \<rightharpoonup> string option"

definition clearColorCache :: "colorCache \<Rightarrow> colorCache" where
  "clearColorCache cache = Map.empty"

text \<open>\<open>`${color}_${Object.keys(tokens.colors).length}_${tokens.colors.textPrimary}`\<close>\<close>

definition colorCacheKey :: "string \<Rightarrow> string object \<Rightarrow> string" where
  "colorCacheKey color cs =
     color @ ''_'' @ show_nat (length (Object_keys cs)) @ ''_'' @
     (case property cs ''textPrimary'' of None \<Rightarrow> ''undefined'' | Some v \<Rightarrow> v)"

text \<open>The \<open>color\<close> argument is \<open>None\<close> for \<open>undefined\<close>.\<close>

definition getTextColor ::
  "string option \<Rightarrow> 'z DesignTokens_scheme option \<Rightarrow> colorCache
     \<Rightarrow> (error + string option) \<times> colorCache" where
  "getTextColor color tokens cache =
     (case tokens of
        None \<Rightarrow>
          (Inl (Error ''Invalid design tokens: tokens and tokens.colors are required''), cache)
      | Some t \<Rightarrow>
          (case colors t of
             None \<Rightarrow>
               (Inl (Error ''Invalid design tokens: tokens and tokens.colors are required''),
                cache)
           | Some cs \<Rightarrow>
               (if color = None \<or> color = Some [] then (Inr (property cs ''textPrimary''), cache)
                else if \<not> isColorVariant (the color) then (Inr color, cache)
                else
                  (let cacheKey = colorCacheKey (the color) cs in
                   case cache cacheKey of
                     Some cached \<Rightarrow> (Inr cached, cache)
                   | None \<Rightarrow>
                       (case MaterialColorMapper_getColor (the color) t of
                          Inl e \<Rightarrow> (Inl e, cache)
                        | Inr resolvedColor \<Rightarrow>
                            (Inr resolvedColor, cache(cacheKey \<mapsto> resolvedColor)))))))"

subsection \<open>src/presentation/utils/textColorUtils.ts, the module without a cache\<close>

definition validVariants :: "string list" where
  "validVariants =
     [''textPrimary'', ''textSecondary'', ''textTertiary'', ''textDisabled'', ''textInverse'',
      ''onSurface'', ''onBackground'', ''onPrimary'', ''onSecondary'', ''onSuccess'',
      ''onError'', ''onWarning'', ''onInfo'', ''success'', ''error'', ''warning'', ''info'',
      ''primary'', ''secondary'', ''tertiary'', ''disabled'', ''inverse'', ''surfaceVariant'']"

definition isColorVariant_textColorUtils :: "string \<Rightarrow> bool" where
  "isColorVariant_textColorUtils v = (v \<in> set validVariants)"

definition colorMap :: "string object \<Rightarrow> string option object" where
  "colorMap cs =
     [(''textPrimary'', property cs ''textPrimary''),
      (''textSecondary'', property cs ''textSecondary''),
      (''textTertiary'', property cs ''textTertiary''),
      (''textDisabled'', property cs ''textDisabled''),
      (''textInverse'', property cs ''textInverse''),
      (''onSurface'', property cs ''onSurface''),
      (''onBackground'', property cs ''onBackground''),
      (''onPrimary'', property cs ''onPrimary''),
      (''onSecondary'', property cs ''onSecondary''),
      (''onSuccess'', property cs ''onSuccess''),
      (''onError'', property cs ''onError''),
      (''onWarning'', property cs ''onWarning''),
      (''onInfo'', property cs ''onInfo''),
      (''success'', property cs ''success''),
      (''error'', property cs ''error''),
      (''warning'', property cs ''warning''),
      (''info'', property cs ''info''),
      (''primary'', property cs ''textPrimary''),
      (''secondary'', property cs ''textSecondary''),
      (''tertiary'', property cs ''textTertiary''),
      (''disabled'', property cs ''textDisabled''),
      (''inverse'', property cs ''textInverse''),
      (''surfaceVariant'', property cs ''textSecondary'')]"

text \<open>This module reads \<open>tokens.colors\<close> without a guard: on a \<open>null\<close> table or a
  \<open>null\<close> \<open>colors\<close> field the read throws a \<open>TypeError\<close>. \<open>colorMap[color] || color\<close>
  falls back to \<open>color\<close> when the entry is \<open>undefined\<close> or the empty string.\<close>

definition getTextColor_textColorUtils ::
  "string option \<Rightarrow> 'z DesignTokens_scheme option \<Rightarrow> error + string option" where
  "getTextColor_textColorUtils color tokens =
     (if color = None \<or> color = Some [] then
        (case tokens of
           None \<Rightarrow> Inl TypeError
         | Some t \<Rightarrow> colors_field t ''textPrimary'')
      else if \<not> isColorVariant_textColorUtils (the color) then Inr color
      else
        (case tokens of
           None \<Rightarrow> Inl TypeError
         | Some t \<Rightarrow>
             (case colors t of
                None \<Rightarrow> Inl TypeError
              | Some cs \<Rightarrow>
                  (case property (colorMap cs) (the color) of
                     Some (Some v) \<Rightarrow> if v = [] then Inr color else Inr (Some v)
                   | _ \<Rightarrow> Inr color))))"

section \<open>The resolvers on the program state\<close>

text \<open>
  The caller owns the token tables: they are objects of the heap, and what a resolver
  receives is a reference to one (or \<open>null\<close>, here \<open>None\<close>). The two caches are the
  module-level maps. Below, each function of the three modules is written once more as
  the source has it, now on the whole program state: it reads the table through the
  reference in the state it is in, and returns its result with the state it leaves.
  Whatever a function body does to the state is in the body itself: a statement that
  assigned to the table, to its \<open>colors\<close> or to its \<open>typography\<close>, would be an update of
  \<open>heap\<close> there.
\<close>

type_synonym addr = nat

record program_state =
  heap :: "addr \<Rightarrow> DesignTokens"
  typography_cache :: typographyCache
  color_cache :: colorCache

subsection \<open>textStyleUtils\<close>

definition MaterialTypographyMapper_getStyle_st ::
  "string \<Rightarrow> addr \<Rightarrow> program_state \<Rightarrow> (error + TextStyle member) \<times> program_state" where
  "MaterialTypographyMapper_getStyle_st variant tokens s =
     (case typography (heap s tokens) of
        None \<Rightarrow> (Inl TypeError, s)
      | Some ty \<Rightarrow>
          (case member ty variant of
             Undefined \<Rightarrow> (Inr (member ty ''bodyLarge''), s)
           | Own style \<Rightarrow> (Inr (Own style), s)
           | Inherited name \<Rightarrow> (Inr (Inherited name), s)))"

definition clearTypographyCache_st :: "program_state \<Rightarrow> program_state" where
  "clearTypographyCache_st s = s\<lparr>typography_cache := Map.empty\<rparr>"

definition getTextStyle_st ::
  "string \<Rightarrow> addr option \<Rightarrow> program_state \<Rightarrow> (error + TextStyle member) \<times> program_state" where
  "getTextStyle_st variant tokens s =
     (case tokens of
        None \<Rightarrow>
          (Inl (Error ''Invalid design tokens: tokens and tokens.typography are required''), s)
      | Some t \<Rightarrow>
          (case typography (heap s t) of
             None \<Rightarrow>
               (Inl (Error ''Invalid design tokens: tokens and tokens.typography are required''),
                s)
           | Some ty \<Rightarrow>
               (let cacheKey = typographyCacheKey variant ty in
                case typography_cache s cacheKey of
                  Some cached \<Rightarrow> (Inr cached, s)
                | None \<Rightarrow>
                    (case MaterialTypographyMapper_getStyle_st variant t s of
                       (Inl e, s') \<Rightarrow> (Inl e, s')
                     | (Inr resolvedStyle, s') \<Rightarrow>
                         (Inr resolvedStyle,
                          s'\<lparr>typography_cache :=
                               (typography_cache s')(cacheKey \<mapsto> resolvedStyle)\<rparr>)))))"

subsection \<open>textColorUtils, the memoizing module\<close>

definition colors_field_st ::
  "string \<Rightarrow> addr \<Rightarrow> program_state \<Rightarrow> (error + string option) \<times> program_state" where
  "colors_field_st name tokens s =
     (case colors (heap s tokens) of
        None \<Rightarrow> (Inl TypeError, s)
      | Some cs \<Rightarrow> (Inr (property cs name), s))"

definition MaterialColorMapper_getColor_st ::
  "string \<Rightarrow> addr \<Rightarrow> program_state \<Rightarrow> (error + string option) \<times> program_state" where
  "MaterialColorMapper_getColor_st color tokens s =
     (if color = ''textPrimary'' then colors_field_st ''textPrimary'' tokens s
      else if color = ''textSecondary'' then colors_field_st ''textSecondary'' tokens s
      else if color = ''textTertiary'' then colors_field_st ''textTertiary'' tokens s
      else if color = ''textDisabled'' then colors_field_st ''textDisabled'' tokens s
      else if color = ''textInverse'' then colors_field_st ''textInverse'' tokens s
      else if color = ''onSurface'' then colors_field_st ''onSurface'' tokens s
      else if color = ''onBackground'' then colors_field_st ''onBackground'' tokens s
      else if color = ''onPrimary'' then colors_field_st ''onPrimary'' tokens s
      else if color = ''onSecondary'' then colors_field_st ''onSecondary'' tokens s
      else if color = ''onSuccess'' then colors_field_st ''onSuccess'' tokens s
      else if color = ''onError'' then colors_field_st ''onError'' tokens s
      else if color = ''onWarning'' then colors_field_st ''onWarning'' tokens s
      else if color = ''onInfo'' then colors_field_st ''onInfo'' tokens s
      else if color = ''success'' then colors_field_st ''success'' tokens s
      else if color = ''error'' then colors_field_st ''error'' tokens s
      else if color = ''warning'' then colors_field_st ''warning'' tokens s
      else if color = ''info'' then colors_field_st ''info'' tokens s
      else if color = ''primary'' then colors_field_st ''textPrimary'' tokens s
      else if color = ''secondary'' then colors_field_st ''textSecondary'' tokens s
      else if color = ''tertiary'' then colors_field_st ''textTertiary'' tokens s
      else if color = ''disabled'' then colors_field_st ''textDisabled'' tokens s
      else if color = ''inverse'' then colors_field_st ''textInverse'' tokens s
      else if color = ''surfaceVariant'' then colors_field_st ''textSecondary'' tokens s
      else colors_field_st ''textPrimary'' tokens s)"

definition clearColorCache_st :: "program_state \<Rightarrow> program_state" where
  "clearColorCache_st s = s\<lparr>color_cache := Map.empty\<rparr>"

definition getTextColor_st ::
  "string option \<Rightarrow> addr option \<Rightarrow> program_state \<Rightarrow> (error + string option) \<times> program_state" where
  "getTextColor_st color tokens s =
     (case tokens of
        None \<Rightarrow>
          (Inl (Error ''Invalid design tokens: tokens and tokens.colors are required''), s)
      | Some t \<Rightarrow>
          (case colors (heap s t) of
             None \<Rightarrow>
               (Inl (Error ''Invalid design tokens: tokens and tokens.colors are required''), s)
           | Some cs \<Rightarrow>
               (if color = None \<or> color = Some [] then (Inr (property cs ''textPrimary''), s)
                else if \<not> isColorVariant (the color) then (Inr color, s)
                else
                  (let cacheKey = colorCacheKey (the color) cs in
                   case color_cache s cacheKey of
                     Some cached \<Rightarrow> (Inr cached, s)
                   | None \<Rightarrow>
                       (case MaterialColorMapper_getColor_st (the color) t s of
                          (Inl e, s') \<Rightarrow> (Inl e, s')
                        | (Inr resolvedColor, s') \<Rightarrow>
                            (Inr resolvedColor,
                             s'\<lparr>color_cache :=
                                  (color_cache s')(cacheKey \<mapsto> resolvedColor)\<rparr>))))))"

subsection \<open>src/presentation/utils/textColorUtils.ts, the module without a cache\<close>

definition getTextColor_textColorUtils_st ::
  "string option \<Rightarrow> addr option \<Rightarrow> program_state \<Rightarrow> (error + string option) \<times> program_state" where
  "getTextColor_textColorUtils_st color tokens s =
     (if color = None \<or> color = Some [] then
        (case tokens of
           None \<Rightarrow> (Inl TypeError, s)
         | Some t \<Rightarrow> colors_field_st ''textPrimary'' t s)
      else if \<not> isColorVariant_textColorUtils (the color) then (Inr color, s)
      else
        (case tokens of
           None \<Rightarrow> (Inl TypeError, s)
         | Some t \<Rightarrow>
             (case colors (heap s t) of
                None \<Rightarrow> (Inl TypeError, s)
              | Some cs \<Rightarrow>
                  (case property (colorMap cs) (the color) of
                     Some (Some v) \<Rightarrow> if v = [] then (Inr color, s) else (Inr (Some v), s)
                   | _ \<Rightarrow> (Inr color, s)))))"

section \<open>Vocabulary of the statements\<close>

text \<open>The digits of a channel as the patterns admit them (one to three decimal digits),
  and the optional percent sign after them.\<close>

definition digits13 :: "string \<Rightarrow> bool" where
  "digits13 d = (d \<noteq> [] \<and> length d \<le> 3 \<and> list_all is_digit d)"

definition percent_opt :: "string \<Rightarrow> bool" where
  "percent_opt p = (p = [] \<or> p = ''%'')"

section \<open>Token tables\<close>

text \<open>\<open>mockTokens\<close> is the table of the test suite. The other tables differ from it, or
  from one another, in the entries named; \<open>set_property obj name v\<close> is \<open>obj\<close> with the
  existing property \<open>name\<close> set to \<open>v\<close>.\<close>

definition set_property :: "'a object \<Rightarrow> string \<Rightarrow> 'a \<Rightarrow> 'a object" where
  "set_property obj name v = map (\<lambda>(k, x). if k = name then (k, v) else (k, x)) obj"

definition mockColors :: "string object" where
  "mockColors =
     [(''textPrimary'', ''#000000''), (''textSecondary'', ''#666666''),
      (''textTertiary'', ''#999999''), (''textDisabled'', ''#CCCCCC''),
      (''textInverse'', ''#FFFFFF''), (''onSurface'', ''#000000''),
      (''onBackground'', ''#000000''), (''onPrimary'', ''#FFFFFF''),
      (''onSecondary'', ''#FFFFFF''), (''onSuccess'', ''#FFFFFF''),
      (''onError'', ''#FFFFFF''), (''onWarning'', ''#000000''), (''onInfo'', ''#FFFFFF''),
      (''success'', ''#4CAF50''), (''error'', ''#F44336''), (''warning'', ''#FF9800''),
      (''info'', ''#2196F3''), (''primary'', ''#2196F3''), (''secondary'', ''#FF9800''),
      (''tertiary'', ''#9C27B0''), (''surface'', ''#FFFFFF''),
      (''surfaceVariant'', ''#F5F5F5''), (''background'', ''#FFFFFF'')]"

definition mockTypography :: "TextStyle object" where
  "mockTypography =
     [(''displayLarge'', \<lparr>fontSize = 57, fontWeight = ''400''\<rparr>),
      (''displayMedium'', \<lparr>fontSize = 45, fontWeight = ''400''\<rparr>),
      (''displaySmall'', \<lparr>fontSize = 36, fontWeight = ''400''\<rparr>),
      (''headlineLarge'', \<lparr>fontSize = 32, fontWeight = ''400''\<rparr>),
      (''headlineMedium'', \<lparr>fontSize = 28, fontWeight = ''400''\<rparr>),
      (''headlineSmall'', \<lparr>fontSize = 24, fontWeight = ''400''\<rparr>),
      (''titleLarge'', \<lparr>fontSize = 22, fontWeight = ''500''\<rparr>),
      (''titleMedium'', \<lparr>fontSize = 16, fontWeight = ''500''\<rparr>),
      (''titleSmall'', \<lparr>fontSize = 14, fontWeight = ''500''\<rparr>),
      (''bodyLarge'', \<lparr>fontSize = 16, fontWeight = ''400''\<rparr>),
      (''bodyMedium'', \<lparr>fontSize = 14, fontWeight = ''400''\<rparr>),
      (''bodySmall'', \<lparr>fontSize = 12, fontWeight = ''400''\<rparr>),
      (''labelLarge'', \<lparr>fontSize = 14, fontWeight = ''500''\<rparr>),
      (''labelMedium'', \<lparr>fontSize = 12, fontWeight = ''500''\<rparr>),
      (''labelSmall'', \<lparr>fontSize = 11, fontWeight = ''500''\<rparr>)]"

definition mockTokens :: DesignTokens where
  "mockTokens = \<lparr>colors = Some mockColors, typography = Some mockTypography\<rparr>"

definition tokens_a :: DesignTokens where
  "tokens_a = \<lparr>colors = Some mockColors,
               typography = Some [(''bodyLarge'', \<lparr>fontSize = 16, fontWeight = ''400''\<rparr>),
                                  (''caption'', \<lparr>fontSize = 11, fontWeight = ''500''\<rparr>)]\<rparr>"

definition tokens_b :: DesignTokens where
  "tokens_b = \<lparr>colors = Some mockColors,
               typography = Some [(''bodyLarge'', \<lparr>fontSize = 16, fontWeight = ''400''\<rparr>),
                                  (''labelSmall'', \<lparr>fontSize = 11, fontWeight = ''500''\<rparr>)]\<rparr>"

definition typography_bold :: "TextStyle object" where
  "typography_bold =
     set_property mockTypography ''headlineMedium'' \<lparr>fontSize = 30, fontWeight = ''700''\<rparr>"

definition tokens_bold :: DesignTokens where
  "tokens_bold = mockTokens\<lparr>typography := Some typography_bold\<rparr>"

definition tokens_grey :: DesignTokens where
  "tokens_grey = mockTokens\<lparr>colors := Some (set_property mockColors ''textSecondary'' ''#777777'')\<rparr>"

definition tokens_blank :: DesignTokens where
  "tokens_blank = mockTokens\<lparr>colors := Some (set_property mockColors ''textSecondary'' [])\<rparr>"

section \<open>The expectations of the test suite\<close>

text \<open>The model gives what the tests of the repository expect, here on a selection of
  their inputs; the resolvers start from an empty cache.\<close>

lemma colorValidationUtils_tests_hex:
  "isValidHexColor ''#fff'' \<and> isValidHexColor ''#000'' \<and> isValidHexColor ''#abc''
   \<and> isValidHexColor ''#123'' \<and> isValidHexColor ''#ffffff'' \<and> isValidHexColor ''#000000''
   \<and> isValidHexColor ''#abcdef'' \<and> isValidHexColor ''#123456'' \<and> isValidHexColor ''#FF5733''
   \<and> \<not> isValidHexColor ''#ff'' \<and> \<not> isValidHexColor ''#ffff'' \<and> \<not> isValidHexColor ''#ggg''
   \<and> \<not> isValidHexColor ''ffffff'' \<and> \<not> isValidHexColor ''#12345''"
  by code_simp

lemma colorValidationUtils_tests_rgb:
  "isValidRgbColor ''rgb(255, 0, 0)'' \<and> isValidRgbColor ''rgba(255, 0, 0, 0.5)''
   \<and> isValidRgbColor ''rgb(100%, 0%, 0%)'' \<and> \<not> isValidRgbColor ''rgb(256, 0, 0)''
   \<and> \<not> isValidRgbColor ''rgb(255, -1, 0)'' \<and> \<not> isValidRgbColor ''rgb(255, 0)''
   \<and> \<not> isValidRgbColor ''255, 0, 0''"
  by code_simp

lemma colorValidationUtils_tests_hsl:
  "isValidHslColor ''hsl(0, 100%, 50%)'' \<and> isValidHslColor ''hsla(0, 100%, 50%, 0.5)''
   \<and> \<not> isValidHslColor ''hsl(361, 100%, 50%)'' \<and> \<not> isValidHslColor ''hsl(120, 101%, 50%)''
   \<and> \<not> isValidHslColor ''hsl(120, 100%, 101%)'' \<and> \<not> isValidHslColor ''hsl(120, 100%)''"
  by code_simp

lemma colorValidationUtils_tests_named:
  "isValidNamedColor ''red'' \<and> isValidNamedColor ''blue'' \<and> isValidNamedColor ''green''
   \<and> isValidNamedColor ''transparent'' \<and> isValidNamedColor ''currentColor''
   \<and> \<not> isValidNamedColor ''notacolor'' \<and> \<not> isValidNamedColor ''color123''
   \<and> \<not> isValidNamedColor [] \<and> \<not> isValidNamedColor ''red-blue''"
  by code_simp

lemma colorValidationUtils_tests_format:
  "getColorFormat ''#fff'' = ''hex'' \<and> getColorFormat ''rgb(255, 0, 0)'' = ''rgb''
   \<and> getColorFormat ''hsl(0, 100%, 50%)'' = ''hsl'' \<and> getColorFormat ''red'' = ''named''
   \<and> getColorFormat ''invalid'' = ''unknown'' \<and> getColorFormat [] = ''unknown''"
  by code_simp

lemma colorValidationUtils_tests_normalize:
  "normalizeColor ''#fff'' = ''#ffffff'' \<and> normalizeColor ''#abc'' = ''#aabbcc''
   \<and> normalizeColor ''#123'' = ''#112233'' \<and> normalizeColor ''#abcdef'' = ''#abcdef''
   \<and> normalizeColor ''#FFFFFF'' = ''#ffffff'' \<and> normalizeColor ''#ABCDEF'' = ''#abcdef''
   \<and> normalizeColor ''RED'' = ''red'' \<and> normalizeColor ''invalid'' = ''invalid''
   \<and> normalizeColor [] = [] \<and> normalizeColor ''rgb(255, 0, 0)'' = ''rgb(255, 0, 0)''"
  by code_simp

lemma textStyleUtils_tests:
  "fst (getTextStyle ''bodyLarge'' (None :: DesignTokens option) Map.empty)
     = Inl (Error ''Invalid design tokens: tokens and tokens.typography are required'')
   \<and> fst (getTextStyle ''bodyLarge'' (Some \<lparr>colors = None, typography = None\<rparr>) Map.empty)
     = Inl (Error ''Invalid design tokens: tokens and tokens.typography are required'')
   \<and> fst (getTextStyle ''displayLarge'' (Some mockTokens) Map.empty)
     = Inr (Own \<lparr>fontSize = 57, fontWeight = ''400''\<rparr>)
   \<and> fst (getTextStyle ''headlineMedium'' (Some mockTokens) Map.empty)
     = Inr (Own \<lparr>fontSize = 28, fontWeight = ''400''\<rparr>)
   \<and> fst (getTextStyle ''titleSmall'' (Some mockTokens) Map.empty)
     = Inr (Own \<lparr>fontSize = 14, fontWeight = ''500''\<rparr>)
   \<and> fst (getTextStyle ''bodyMedium'' (Some mockTokens) Map.empty)
     = Inr (Own \<lparr>fontSize = 14, fontWeight = ''400''\<rparr>)
   \<and> fst (getTextStyle ''labelSmall'' (Some mockTokens) Map.empty)
     = Inr (Own \<lparr>fontSize = 11, fontWeight = ''500''\<rparr>)
   \<and> fst (getTextStyle ''unknownVariant'' (Some mockTokens) Map.empty)
     = Inr (Own \<lparr>fontSize = 16, fontWeight = ''400''\<rparr>)"
  by code_simp

lemma textColorUtils_tests:
  "fst (getTextColor (Some ''textPrimary'') (None :: DesignTokens option) Map.empty)
     = Inl (Error ''Invalid design tokens: tokens and tokens.colors are required'')
   \<and> fst (getTextColor (Some ''textPrimary'') (Some \<lparr>colors = None, typography = None\<rparr>)
          Map.empty)
     = Inl (Error ''Invalid design tokens: tokens and tokens.colors are required'')
   \<and> fst (getTextColor None (Some mockTokens) Map.empty) = Inr (Some ''#000000'')
   \<and> fst (getTextColor (Some ''#FF5722'') (Some mockTokens) Map.empty) = Inr (Some ''#FF5722'')
   \<and> fst (getTextColor (Some ''textPrimary'') (Some mockTokens) Map.empty)
     = Inr (Some ''#000000'')
   \<and> fst (getTextColor (Some ''textSecondary'') (Some mockTokens) Map.empty)
     = Inr (Some ''#666666'')
   \<and> fst (getTextColor (Some ''success'') (Some mockTokens) Map.empty) = Inr (Some ''#4CAF50'')
   \<and> fst (getTextColor (Some ''error'') (Some mockTokens) Map.empty) = Inr (Some ''#F44336'')
   \<and> fst (getTextColor (Some ''warning'') (Some mockTokens) Map.empty) = Inr (Some ''#FF9800'')
   \<and> fst (getTextColor (Some ''info'') (Some mockTokens) Map.empty) = Inr (Some ''#2196F3'')
   \<and> fst (getTextColor (Some ''onPrimary'') (Some mockTokens) Map.empty) = Inr (Some ''#FFFFFF'')
   \<and> fst (getTextColor (Some ''onError'') (Some mockTokens) Map.empty) = Inr (Some ''#FFFFFF'')
   \<and> fst (getTextColor (Some ''primary'') (Some mockTokens) Map.empty) = Inr (Some ''#000000'')
   \<and> fst (getTextColor (Some ''secondary'') (Some mockTokens) Map.empty)
     = Inr (Some ''#666666'')
   \<and> fst (getTextColor (Some ''surfaceVariant'') (Some mockTokens) Map.empty)
     = Inr (Some ''#666666'')
   \<and> fst (getTextColor (Some []) (Some mockTokens) Map.empty) = Inr (Some ''#000000'')
   \<and> fst (getTextColor (Some ''#RRGGBB'') (Some mockTokens) Map.empty) = Inr (Some ''#RRGGBB'')
   \<and> fst (getTextColor (Some ''rgb(255, 0, 0)'') (Some mockTokens) Map.empty)
     = Inr (Some ''rgb(255, 0, 0)'')
   \<and> fst (getTextColor (Some ''unknownVariant'') (Some mockTokens) Map.empty)
     = Inr (Some ''unknownVariant'')"
  by code_simp

section \<open>The matcher decides the language of the pattern\<close>

lemma in_conc: "w \<in> conc A B \<longleftrightarrow> (\<exists>u v. w = u @ v \<and> u \<in> A \<and> v \<in> B)"
  by (auto simp: conc_def)

lemma nil_in_conc: "[] \<in> conc A B \<longleftrightarrow> [] \<in> A \<and> [] \<in> B"
  by (auto simp: conc_def)

lemma cons_in_conc:
  "c # w \<in> conc A B \<longleftrightarrow>
     ([] \<in> A \<and> c # w \<in> B) \<or> (\<exists>u v. w = u @ v \<and> c # u \<in> A \<and> v \<in> B)"
  by (auto simp: conc_def Cons_eq_append_conv)

lemma cons_in_star_D:
  assumes "x \<in> star A" and "x = c # w"
  shows "\<exists>u v. w = u @ v \<and> c # u \<in> A \<and> v \<in> star A"
  using assms
proof (induction arbitrary: w rule: star.induct)
  case star_empty
  then show ?case by simp
next
  case (star_step u v)
  show ?case
  proof (cases u)
    case Nil
    with star_step show ?thesis by simp
  next
    case (Cons d u')
    with star_step.prems have "d = c" and "w = u' @ v" by simp_all
    with star_step.hyps Cons show ?thesis by blast
  qed
qed

lemma cons_in_star:
  "c # w \<in> star A \<longleftrightarrow> (\<exists>u v. w = u @ v \<and> c # u \<in> A \<and> v \<in> star A)"
proof
  assume "c # w \<in> star A"
  then show "\<exists>u v. w = u @ v \<and> c # u \<in> A \<and> v \<in> star A"
    by (rule cons_in_star_D) simp
next
  assume "\<exists>u v. w = u @ v \<and> c # u \<in> A \<and> v \<in> star A"
  then obtain u v where "w = u @ v" "c # u \<in> A" "v \<in> star A" by blast
  then show "c # w \<in> star A"
    using star_step [of "c # u" A v] by simp
qed

lemma nullable_lang: "nullable r \<longleftrightarrow> [] \<in> lang r"
  by (induction r) (auto simp: nil_in_conc intro: star_empty)

lemma deriv_lang: "w \<in> lang (deriv c r) \<longleftrightarrow> c # w \<in> lang r"
proof (induction r arbitrary: w)
  case (Seq r s)
  have "w \<in> lang (deriv c (Seq r s)) \<longleftrightarrow>
          ([] \<in> lang r \<and> c # w \<in> lang s)
          \<or> (\<exists>u v. w = u @ v \<and> c # u \<in> lang r \<and> v \<in> lang s)"
    by (auto simp: in_conc Seq nullable_lang)
  also have "\<dots> \<longleftrightarrow> c # w \<in> conc (lang r) (lang s)"
    by (simp only: cons_in_conc)
  finally show ?case by simp
next
  case (Star r)
  have "w \<in> lang (deriv c (Star r)) \<longleftrightarrow>
          (\<exists>u v. w = u @ v \<and> c # u \<in> lang r \<and> v \<in> star (lang r))"
    by (simp add: in_conc Star)
  also have "\<dots> \<longleftrightarrow> c # w \<in> star (lang r)"
    by (simp only: cons_in_star)
  finally show ?case by simp
qed auto

lemma test_lang: "test r w \<longleftrightarrow> w \<in> lang r"
  by (induction w arbitrary: r) (simp_all add: nullable_lang deriv_lang)

section \<open>The four formats exclude one another\<close>

text \<open>Every string of a pattern is made of code units of its alphabet. A hex color
  holds \<open>#\<close>, which none of the other patterns admits; an rgb color holds \<open>r\<close>, which the
  hsl pattern does not admit; rgb and hsl colors hold a parenthesis, which no color name
  does.\<close>

lemma star_alphabet:
  assumes "w \<in> star A" and "\<And>u. u \<in> A \<Longrightarrow> set u \<subseteq> S"
  shows "set w \<subseteq> S"
  using assms by (induction rule: star.induct) auto

lemma lang_alphabet: "w \<in> lang r \<Longrightarrow> set w \<subseteq> alphabet r"
proof (induction r arbitrary: w)
  case (Seq r s)
  then obtain u v where "w = u @ v" "u \<in> lang r" "v \<in> lang s"
    by (auto simp: in_conc)
  with Seq.IH show ?case by fastforce
next
  case (Star r)
  then show ?case using star_alphabet [of w "lang r" "alphabet r"] by simp
qed auto

lemma seqs_mandatory:
  "Cls [c] \<in> set rs \<Longrightarrow> w \<in> lang (seqs rs) \<Longrightarrow> c \<in> set w"
  by (induction rs arbitrary: w) (auto simp: in_conc)

lemma seqs_mandatory_test:
  "p = seqs rs \<Longrightarrow> Cls [c] \<in> set rs \<Longrightarrow> test p w \<Longrightarrow> c \<in> set w"
  using seqs_mandatory [of c rs w] by (simp add: test_lang)

lemma hash_not_rgb: "CHR ''#'' \<notin> alphabet COLOR_PATTERNS_rgb"
  by code_simp

lemma hash_not_hsl: "CHR ''#'' \<notin> alphabet COLOR_PATTERNS_hsl"
  by code_simp

lemma hash_not_named: "CHR ''#'' \<notin> alphabet COLOR_PATTERNS_named"
  by code_simp

lemma r_not_hsl: "CHR ''r'' \<notin> alphabet COLOR_PATTERNS_hsl"
  by code_simp

lemma paren_not_named: "CHR ''('' \<notin> alphabet COLOR_PATTERNS_named"
  by code_simp

lemma hex_has_hash: "test COLOR_PATTERNS_hex w \<Longrightarrow> CHR ''#'' \<in> set w"
  by (erule seqs_mandatory_test [OF COLOR_PATTERNS_hex_def, rotated]) (simp add: chr_def)

lemma rgb_has_r: "test COLOR_PATTERNS_rgb w \<Longrightarrow> CHR ''r'' \<in> set w"
  by (erule seqs_mandatory_test [OF COLOR_PATTERNS_rgb_def, rotated]) (simp add: chr_def)

lemma rgb_has_paren: "test COLOR_PATTERNS_rgb w \<Longrightarrow> CHR ''('' \<in> set w"
  by (erule seqs_mandatory_test [OF COLOR_PATTERNS_rgb_def, rotated]) (simp add: chr_def)

lemma hsl_has_paren: "test COLOR_PATTERNS_hsl w \<Longrightarrow> CHR ''('' \<in> set w"
  by (erule seqs_mandatory_test [OF COLOR_PATTERNS_hsl_def, rotated]) (simp add: chr_def)

lemma test_alphabet: "test r w \<Longrightarrow> c \<in> set w \<Longrightarrow> c \<in> alphabet r"
  using lang_alphabet [of w r] by (auto simp: test_lang)

lemma hex_not_rgb: "test COLOR_PATTERNS_hex w \<Longrightarrow> \<not> test COLOR_PATTERNS_rgb w"
  using hex_has_hash test_alphabet hash_not_rgb by blast

lemma hex_not_hsl: "test COLOR_PATTERNS_hex w \<Longrightarrow> \<not> test COLOR_PATTERNS_hsl w"
  using hex_has_hash test_alphabet hash_not_hsl by blast

lemma hex_not_named: "test COLOR_PATTERNS_hex w \<Longrightarrow> \<not> test COLOR_PATTERNS_named w"
  using hex_has_hash test_alphabet hash_not_named by blast

lemma rgb_not_hsl: "test COLOR_PATTERNS_rgb w \<Longrightarrow> \<not> test COLOR_PATTERNS_hsl w"
  using rgb_has_r test_alphabet r_not_hsl by blast

lemma rgb_not_named: "test COLOR_PATTERNS_rgb w \<Longrightarrow> \<not> test COLOR_PATTERNS_named w"
  using rgb_has_paren test_alphabet paren_not_named by blast

lemma hsl_not_named: "test COLOR_PATTERNS_hsl w \<Longrightarrow> \<not> test COLOR_PATTERNS_named w"
  using hsl_has_paren test_alphabet paren_not_named by blast

lemma isValidRgbColor_test: "isValidRgbColor c \<Longrightarrow> test COLOR_PATTERNS_rgb c"
  by (auto simp: isValidRgbColor_def split: if_splits)

lemma isValidHslColor_test: "isValidHslColor c \<Longrightarrow> test COLOR_PATTERNS_hsl c"
  by (auto simp: isValidHslColor_def split: if_splits)

text \<open>
  C5. For every string \<open>c\<close>, \<open>getColorFormat c\<close> is \<open>hex\<close> exactly when
  \<open>isValidHexColor c\<close> holds, \<open>rgb\<close> exactly when \<open>isValidRgbColor c\<close> holds, \<open>hsl\<close>
  exactly when \<open>isValidHslColor c\<close> holds, \<open>named\<close> exactly when \<open>isValidNamedColor c\<close>
  holds, and \<open>unknown\<close> exactly when none of the four holds.
\<close>

theorem getColorFormat_iff:
  "(getColorFormat c = ''hex'' \<longleftrightarrow> isValidHexColor c)
   \<and> (getColorFormat c = ''rgb'' \<longleftrightarrow> isValidRgbColor c)
   \<and> (getColorFormat c = ''hsl'' \<longleftrightarrow> isValidHslColor c)
   \<and> (getColorFormat c = ''named'' \<longleftrightarrow> isValidNamedColor c)
   \<and> (getColorFormat c = ''unknown'' \<longleftrightarrow>
        \<not> isValidHexColor c \<and> \<not> isValidRgbColor c \<and> \<not> isValidHslColor c
        \<and> \<not> isValidNamedColor c)"
proof -
  have 1: "isValidHexColor c \<Longrightarrow> \<not> isValidRgbColor c"
    using hex_not_rgb isValidRgbColor_test by (auto simp: isValidHexColor_def)
  have 2: "isValidHexColor c \<Longrightarrow> \<not> isValidHslColor c"
    using hex_not_hsl isValidHslColor_test by (auto simp: isValidHexColor_def)
  have 3: "isValidHexColor c \<Longrightarrow> \<not> isValidNamedColor c"
    using hex_not_named by (auto simp: isValidHexColor_def isValidNamedColor_def)
  have 4: "isValidRgbColor c \<Longrightarrow> \<not> isValidHslColor c"
    using rgb_not_hsl isValidRgbColor_test isValidHslColor_test by blast
  have 5: "isValidRgbColor c \<Longrightarrow> \<not> isValidNamedColor c"
    using rgb_not_named isValidRgbColor_test by (auto simp: isValidNamedColor_def)
  have 6: "isValidHslColor c \<Longrightarrow> \<not> isValidNamedColor c"
    using hsl_not_named isValidHslColor_test by (auto simp: isValidNamedColor_def)
  show ?thesis
    using 1 2 3 4 5 6 by (auto simp: getColorFormat_def)
qed

section \<open>normalizeColor\<close>

lemma normalizeColor_invalid: "\<not> isValidColor c \<Longrightarrow> normalizeColor c = c"
  by (simp add: normalizeColor_def)

lemma normalizeColor_hex3:
  "isValidHexColor c \<Longrightarrow> length c = 4 \<Longrightarrow>
     normalizeColor c = [CHR ''#'', c ! 1, c ! 1, c ! 2, c ! 2, c ! 3, c ! 3]"
  by (simp add: normalizeColor_def isValidColor_def Let_def)

lemma normalizeColor_other:
  "isValidColor c \<Longrightarrow> \<not> (isValidHexColor c \<and> length c = 4) \<Longrightarrow>
     normalizeColor c = toLowerCase c"
  by (auto simp: normalizeColor_def)

text \<open>
  C1. \<open>normalizeColor\<close> is meant to be idempotent. The branch that expands a three-digit
  hex color returns before the lower-casing step, so \<open>#ABC\<close> becomes \<open>#AABBCC\<close>, which
  a second application lower-cases to \<open>#aabbcc\<close>: applying the function twice differs
  from applying it once.
\<close>

theorem normalizeColor_twice_ABC:
  "normalizeColor (normalizeColor ''#ABC'') = ''#aabbcc''
   \<and> normalizeColor ''#ABC'' = ''#AABBCC''
   \<and> normalizeColor (normalizeColor ''#ABC'') \<noteq> normalizeColor ''#ABC''"
  by code_simp

text \<open>
  C2. The hex-expansion law asks for \<open>normalizeColor("#ABC") = "#aabbcc"\<close>. The code
  doubles the digits as they are written and returns \<open>#AABBCC\<close>, while the six-digit
  color \<open>#AABBCC\<close> itself is lower-cased.
\<close>

theorem normalizeColor_ABC_not_lowered:
  "normalizeColor ''#ABC'' \<noteq> ''#aabbcc'' \<and> normalizeColor ''#AABBCC'' = ''#aabbcc''"
  by code_simp

section \<open>rgb colors of a given shape\<close>

text \<open>The strings \<open>rgb(c1, c2, c3)\<close> and \<open>rgba(c1, c2, c3, alpha)\<close>, each channel one to
  three digits with an optional percent sign: they match the rgb pattern, and their first
  three digit runs are the digits of the channels.\<close>

lemma seqs_langI:
  "list_all2 (\<lambda>u r. u \<in> lang r) us rs \<Longrightarrow> concat us \<in> lang (seqs rs)"
  by (induction us rs rule: list_all2_induct) (auto simp: in_conc)

lemma deriv_digit: "deriv c digit = (if is_digit c then Eps else Nul)"
  by (simp add: digit_def is_digit_def)

lemma nullable_digit: "nullable digit = False"
  by (simp add: digit_def)

lemma rep_1_3: "rep (Suc 0) 3 r = Seq (Seq r Eps) (opt (Seq r (opt (Seq r Eps))))"
  by (simp add: rep_def eval_nat_numeral)

lemma digits13_cases:
  assumes "digits13 d"
  obtains a where "d = [a]" "is_digit a"
  | a b where "d = [a, b]" "is_digit a" "is_digit b"
  | a b c where "d = [a, b, c]" "is_digit a" "is_digit b" "is_digit c"
proof (cases d)
  case Nil
  with assms show ?thesis by (simp add: digits13_def)
next
  case 1: (Cons a d1)
  show ?thesis
  proof (cases d1)
    case Nil
    with 1 assms that(1) show ?thesis by (simp add: digits13_def)
  next
    case 2: (Cons b d2)
    show ?thesis
    proof (cases d2)
      case Nil
      with 1 2 assms that(2) show ?thesis by (simp add: digits13_def)
    next
      case 3: (Cons c d3)
      with 1 2 assms have "d3 = []" by (simp add: digits13_def)
      with 1 2 3 assms that(3) show ?thesis by (simp add: digits13_def)
    qed
  qed
qed

lemma digits13_lang: "digits13 d \<Longrightarrow> d \<in> lang (rep (Suc 0) 3 digit)"
proof -
  assume d: "digits13 d"
  then have "test (rep (Suc 0) 3 digit) d"
    by (rule digits13_cases)
       (simp_all add: rep_1_3 opt_def deriv_digit nullable_digit)
  then show ?thesis by (simp add: test_lang)
qed

lemma percent_opt_lang: "percent_opt p \<Longrightarrow> p \<in> lang (opt (chr CHR ''%''))"
  by (auto simp: percent_opt_def opt_def chr_def)

lemma nil_lang_opt: "[] \<in> lang (opt r)"
  by (simp add: opt_def)

lemma space_star_ws: "'' '' \<in> star (lang ws)"
  using star_step [of "'' ''" "lang ws" "[]"] by (simp add: ws_def star_empty)

lemma chr_lang: "[c] \<in> lang (chr c)"
  by (simp add: chr_def)


lemma runs_digits: "list_all is_digit d \<Longrightarrow> runs cur (d @ w) = runs (cur @ d) w"
  by (induction d arbitrary: cur) simp_all

lemma runs_nondigits: "list_all (\<lambda>c. \<not> is_digit c) u \<Longrightarrow> runs [] (u @ w) = runs [] w"
  by (induction u) simp_all

lemma runs_run:
  assumes "d \<noteq> []" "list_all is_digit d" "sep \<noteq> []" "list_all (\<lambda>c. \<not> is_digit c) sep"
  shows "runs [] (d @ sep @ w) = d # runs [] w"
proof -
  from assms(3) obtain c sep' where sep: "sep = c # sep'" by (cases sep) auto
  with assms(4) have c: "\<not> is_digit c" and sep': "list_all (\<lambda>c. \<not> is_digit c) sep'"
    by simp_all
  have "runs [] (d @ sep @ w) = runs d (c # sep' @ w)"
    using runs_digits [OF assms(2), of "[]"] sep by simp
  also have "\<dots> = d # runs [] (sep' @ w)"
    using assms(1) c by simp
  finally show ?thesis using runs_nondigits [OF sep'] by simp
qed

lemma tail_group_lang:
  assumes "test alpha_pattern a"
  shows "'', '' @ a \<in> lang (opt (seqs [chr CHR '','', Star ws, alpha_pattern, Star ws]))"
proof -
  have "concat ['','', '' '', a, []] \<in> lang (seqs [chr CHR '','', Star ws, alpha_pattern, Star ws])"
    using assms by (intro seqs_langI) (simp add: chr_lang space_star_ws star_empty test_lang)
  then show ?thesis by (simp add: opt_def)
qed

lemma rgb_shape_test:
  assumes "digits13 d1" "digits13 d2" "digits13 d3"
    and "percent_opt p1" "percent_opt p2" "percent_opt p3"
    and "a = [] \<or> a = ''a''"
    and "rest = [] \<or> (\<exists>al. rest = '', '' @ al \<and> test alpha_pattern al)"
  shows "test COLOR_PATTERNS_rgb
           (''rgb'' @ a @ ''('' @ d1 @ p1 @ '', '' @ d2 @ p2 @ '', '' @ d3 @ p3 @ rest @ '')'')"
proof -
  have a: "a \<in> lang (opt (chr CHR ''a''))"
    using assms(7) by (auto simp: opt_def chr_def)
  have rest: "rest \<in> lang (opt (seqs [chr CHR '','', Star ws, alpha_pattern, Star ws]))"
    using assms(8) tail_group_lang by (auto simp: nil_lang_opt)
  have "concat [''r'', ''g'', ''b'', a, ''('',
                [], d1, p1, [], '','',
                '' '', d2, p2, [], '','',
                '' '', d3, p3, [], rest, '')'']
        \<in> lang COLOR_PATTERNS_rgb"
    unfolding COLOR_PATTERNS_rgb_def
    using assms(1-6) a rest
    by (intro seqs_langI)
       (simp add: chr_lang space_star_ws star_empty digits13_lang percent_opt_lang)
  then show ?thesis by (simp add: test_lang)
qed

lemma percent_opt_nondigit: "percent_opt p \<Longrightarrow> list_all (\<lambda>c. \<not> is_digit c) p"
  by (auto simp: percent_opt_def is_digit_def)

lemma runs_channel:
  assumes "digits13 d" "percent_opt p" "s = '', '' \<or> s = '')''"
  shows "runs [] (d @ p @ s @ w) = d # runs [] w"
proof -
  have "list_all (\<lambda>c. \<not> is_digit c) (p @ s)" and "p @ s \<noteq> []"
    using percent_opt_nondigit [OF assms(2)] assms(3) by (auto simp: is_digit_def)
  with assms(1) have "runs [] (d @ (p @ s) @ w) = d # runs [] w"
    by (intro runs_run) (simp_all add: digits13_def)
  then show ?thesis by simp
qed

lemma rgb_shape_runs:
  assumes "digits13 d1" "digits13 d2" "digits13 d3"
    and "percent_opt p1" "percent_opt p2" "percent_opt p3"
    and "a = [] \<or> a = ''a''"
    and "rest = [] \<or> (\<exists>al. rest = '', '' @ al)"
  shows "\<exists>m. runs [] (''rgb'' @ a @ ''('' @ d1 @ p1 @ '', '' @ d2 @ p2 @ '', '' @ d3 @ p3
                        @ rest @ '')'')
             = d1 # d2 # d3 # m"
proof -
  have pre: "list_all (\<lambda>c. \<not> is_digit c) (''rgb'' @ a @ ''('')"
    using assms(7) by (auto simp: is_digit_def)
  have "\<exists>s w. rest @ '')'' = s @ w \<and> (s = '', '' \<or> s = '')'')"
  proof (cases "rest = []")
    case True
    then have "rest @ '')'' = '')'' @ []" by simp
    then show ?thesis by blast
  next
    case False
    with assms(8) obtain al where "rest = '', '' @ al" by blast
    then have "rest @ '')'' = '', '' @ (al @ '')'')" by simp
    then show ?thesis by blast
  qed
  then obtain s w where rest: "rest @ '')'' = s @ w" and s: "s = '', '' \<or> s = '')''"
    by blast
  have "runs [] ((''rgb'' @ a @ ''('') @ d1 @ p1 @ '', '' @ d2 @ p2 @ '', '' @ d3 @ p3 @ s @ w)
        = runs [] (d1 @ p1 @ '', '' @ d2 @ p2 @ '', '' @ d3 @ p3 @ s @ w)"
    by (rule runs_nondigits [OF pre])
  also have "\<dots> = d1 # runs [] (d2 @ p2 @ '', '' @ d3 @ p3 @ s @ w)"
    using assms(1,4) by (intro runs_channel) simp_all
  also have "runs [] (d2 @ p2 @ '', '' @ d3 @ p3 @ s @ w) = d2 # runs [] (d3 @ p3 @ s @ w)"
    using assms(2,5) by (intro runs_channel) simp_all
  also have "runs [] (d3 @ p3 @ s @ w) = d3 # runs [] w"
    using assms(3,6) s by (intro runs_channel) simp_all
  finally have "runs [] ((''rgb'' @ a @ ''('') @ d1 @ p1 @ '', '' @ d2 @ p2 @ '', '' @ d3 @ p3
                         @ (rest @ '')'')) = d1 # d2 # d3 # runs [] w"
    unfolding rest .
  then show ?thesis by simp
qed

lemma isValidRgbColor_runs:
  assumes "test COLOR_PATTERNS_rgb w" and "runs [] w = d1 # d2 # d3 # m"
  shows "isValidRgbColor w = (Number d1 \<le> 255 \<and> Number d2 \<le> 255 \<and> Number d3 \<le> 255)"
  using assms by (simp add: isValidRgbColor_def match_digits_def Let_def)

lemma rgb_shape:
  assumes "digits13 d1" "digits13 d2" "digits13 d3"
    and "percent_opt p1" "percent_opt p2" "percent_opt p3"
    and "a = [] \<or> a = ''a''"
    and "rest = [] \<or> (\<exists>al. rest = '', '' @ al \<and> test alpha_pattern al)"
  shows "isValidRgbColor
           (''rgb'' @ a @ ''('' @ d1 @ p1 @ '', '' @ d2 @ p2 @ '', '' @ d3 @ p3 @ rest @ '')'')
         = (Number d1 \<le> 255 \<and> Number d2 \<le> 255 \<and> Number d3 \<le> 255)"
proof -
  let ?w = "''rgb'' @ a @ ''('' @ d1 @ p1 @ '', '' @ d2 @ p2 @ '', '' @ d3 @ p3 @ rest @ '')''"
  have t: "test COLOR_PATTERNS_rgb ?w"
    by (rule rgb_shape_test [OF assms])
  from assms(8) have r: "rest = [] \<or> (\<exists>al. rest = '', '' @ al)" by blast
  have "\<exists>m. runs [] ?w = d1 # d2 # d3 # m"
    by (rule rgb_shape_runs [OF assms(1-7) r])
  then obtain m where m: "runs [] ?w = d1 # d2 # d3 # m" ..
  from t m show ?thesis by (rule isValidRgbColor_runs)
qed

text \<open>The vocabulary of the statements is that of the pattern: \<open>digits13\<close> is
  \<open>\d{1,3}\<close> and \<open>percent_opt\<close> is \<open>%?\<close>.\<close>

lemma lang_digit: "lang digit = {[c] | c. is_digit c}"
  by (simp add: digit_def is_digit_def)

lemma digits13_iff: "digits13 d \<longleftrightarrow> test (rep 1 3 digit) d"
proof
  assume "digits13 d"
  then show "test (rep 1 3 digit) d"
    using digits13_lang by (simp add: test_lang)
next
  assume "test (rep 1 3 digit) d"
  then have "d \<in> lang (rep (Suc 0) 3 digit)"
    by (simp add: test_lang)
  then obtain a r where d: "d = a # r" "is_digit a" "r = [] \<or> (\<exists>b. is_digit b \<and> (r = [b] \<or> (\<exists>c. is_digit c \<and> r = [b, c])))"
    unfolding rep_1_3 by (auto simp: in_conc opt_def lang_digit)
  then show "digits13 d"
    by (auto simp: digits13_def)
qed

lemma percent_opt_iff: "percent_opt p \<longleftrightarrow> test (opt (chr CHR ''%'')) p"
  by (auto simp: percent_opt_def test_lang opt_def chr_def)

text \<open>
  C3, as the code has it. The re-validation after the pattern match reads the first
  three digit runs of the string, whatever follows them: a channel with a percent sign
  is checked against 255 like a bare one. So \<open>rgb(150%, 0%, 0%)\<close> is accepted, because
  150 is at most 255, and \<open>rgb(300%, 0%, 0%)\<close> is rejected.
\<close>

theorem isValidRgbColor_channels:
  assumes "digits13 d1" "digits13 d2" "digits13 d3"
    and "percent_opt p1" "percent_opt p2" "percent_opt p3"
  shows "isValidRgbColor (''rgb('' @ d1 @ p1 @ '', '' @ d2 @ p2 @ '', '' @ d3 @ p3 @ '')'')
         = (Number d1 \<le> 255 \<and> Number d2 \<le> 255 \<and> Number d3 \<le> 255)"
  using rgb_shape [OF assms, of "[]" "[]"] by simp

theorem isValidRgbColor_channels_witness:
  "digits13 ''150'' \<and> digits13 ''300'' \<and> digits13 ''0'' \<and> percent_opt ''%''
   \<and> isValidRgbColor ''rgb(150%, 0%, 0%)''
   \<and> \<not> isValidRgbColor ''rgb(300%, 0%, 0%)''"
proof -
  have d: "digits13 ''150''" "digits13 ''300''" "digits13 ''0''"
    by (simp_all add: digits13_def is_digit_def)
  have p: "percent_opt ''%''"
    by (simp add: percent_opt_def)
  have n: "Number ''150'' = 150" "Number ''300'' = 300" "Number ''0'' = 0"
    by (simp_all add: Number_def)
  show ?thesis
    using d p n
      isValidRgbColor_channels [OF d(1) d(3) d(3) p p p]
      isValidRgbColor_channels [OF d(2) d(3) d(3) p p p]
    by simp
qed

text \<open>C3 as stated exempts a channel with a percent sign from the numeric check.
  \<open>rgb(300%, 0%, 0%)\<close> matches the pattern and is rejected by that check.\<close>

theorem rgb_percent_300_rejected:
  "test COLOR_PATTERNS_rgb ''rgb(300%, 0%, 0%)''
   \<and> match_digits ''rgb(300%, 0%, 0%)'' = Some [''300'', ''0'', ''0'']
   \<and> \<not> isValidRgbColor ''rgb(300%, 0%, 0%)''"
  by code_simp

text \<open>
  C10, as the code has it. No numeric check reads the alpha component; the pattern asks
  of it its form only, \<open>[01]?\.?\d*\<close>. Whatever string of that form follows three
  channels, the verdict is the verdict on the channels: values outside the range from 0
  to 1, such as \<open>9\<close>, are accepted with it. In particular \<open>rgba(0, 0, 0, 9)\<close> is
  accepted.
\<close>

theorem isValidRgbColor_alpha_unchecked:
  assumes "digits13 d1" "digits13 d2" "digits13 d3"
    and "percent_opt p1" "percent_opt p2" "percent_opt p3"
    and "test alpha_pattern al"
  shows "isValidRgbColor
           (''rgba('' @ d1 @ p1 @ '', '' @ d2 @ p2 @ '', '' @ d3 @ p3 @ '', '' @ al @ '')'')
         = (Number d1 \<le> 255 \<and> Number d2 \<le> 255 \<and> Number d3 \<le> 255)"
proof -
  have "'', '' @ al = [] \<or> (\<exists>x. '', '' @ al = '', '' @ x \<and> test alpha_pattern x)"
    using assms(7) by blast
  from rgb_shape [OF assms(1-6) _ this, of "''a''"] show ?thesis by simp
qed

theorem isValidRgbColor_alpha_unchecked_witness:
  "digits13 ''0'' \<and> percent_opt [] \<and> test alpha_pattern ''9'' \<and> Number ''0'' \<le> 255
   \<and> isValidRgbColor ''rgba(0, 0, 0, 9)''"
proof -
  have d: "digits13 ''0''"
    by (simp add: digits13_def is_digit_def)
  have p: "percent_opt []"
    by (simp add: percent_opt_def)
  have a: "test alpha_pattern ''9''"
    by code_simp
  have n: "Number ''0'' = 0"
    by (simp add: Number_def)
  show ?thesis
    using d p a n isValidRgbColor_alpha_unchecked [OF d d d p p p a] by simp
qed

text \<open>C10 as stated accepts every alpha outside the range from 0 to 1 after three valid
  channels. The channels of \<open>rgba(0, 0, 0, 2.5)\<close> are valid, as \<open>rgba(0, 0, 0, 1)\<close>
  shows, and \<open>2.5\<close> is outside the range; the string is rejected, by the pattern, since
  \<open>2.5\<close> has not the form \<open>[01]?\.?\d*\<close>.\<close>

theorem rgba_alpha_2_5_rejected:
  "isValidRgbColor ''rgba(0, 0, 0, 1)''
   \<and> \<not> test alpha_pattern ''2.5''
   \<and> \<not> test COLOR_PATTERNS_rgb ''rgba(0, 0, 0, 2.5)''
   \<and> \<not> isValidRgbColor ''rgba(0, 0, 0, 2.5)''"
  by code_simp

text \<open>Other alphas outside the range: \<open>1.5\<close> and \<open>999\<close> have the form and are accepted,
  \<open>-1\<close> and \<open>19.9\<close> have it not and are rejected.\<close>

lemma rgba_alpha_form:
  "isValidRgbColor ''rgba(0, 0, 0, 1.5)'' \<and> isValidRgbColor ''rgba(0, 0, 0, 999)''
   \<and> \<not> isValidRgbColor ''rgba(0, 0, 0, -1)'' \<and> \<not> isValidRgbColor ''rgba(0, 0, 0, 19.9)''"
  by code_simp

section \<open>The guards of the resolvers\<close>

text \<open>\<open>getTextStyle\<close> and the memoizing \<open>getTextColor\<close> throw exactly on a missing table
  or a missing \<open>typography\<close> (respectively \<open>colors\<close>) field, and then with the fixed
  message.\<close>

lemma getTextStyle_throws_iff:
  "(\<exists>e. fst (getTextStyle variant tokens cache) = Inl e)
     \<longleftrightarrow> (tokens = None \<or> (\<exists>t. tokens = Some t \<and> typography t = None))"
  by (auto simp: getTextStyle_def MaterialTypographyMapper_getStyle_def Let_def
           split: option.splits sum.splits member.splits)

lemma getTextStyle_throws_message:
  "fst (getTextStyle variant tokens cache) = Inl e \<Longrightarrow>
     e = Error ''Invalid design tokens: tokens and tokens.typography are required''"
  by (auto simp: getTextStyle_def MaterialTypographyMapper_getStyle_def Let_def
           split: option.splits sum.splits member.splits)

lemma getColor_no_throw:
  "colors t = Some cs \<Longrightarrow> \<exists>v. MaterialColorMapper_getColor color t = Inr v"
  by (simp add: MaterialColorMapper_getColor_def colors_field_def)

lemma getTextColor_throws_iff:
  "(\<exists>e. fst (getTextColor color tokens cache) = Inl e)
     \<longleftrightarrow> (tokens = None \<or> (\<exists>t. tokens = Some t \<and> colors t = None))"
proof (cases tokens)
  case None
  then show ?thesis by (simp add: getTextColor_def)
next
  case (Some t)
  show ?thesis
  proof (cases "colors t")
    case None
    with Some show ?thesis by (simp add: getTextColor_def)
  next
    case cs: (Some cs)
    obtain v where "MaterialColorMapper_getColor (the color) t = Inr v"
      using getColor_no_throw [OF cs] by blast
    with Some cs show ?thesis
      by (simp add: getTextColor_def Let_def split: option.splits)
  qed
qed

lemma getTextColor_throws_message:
  assumes "fst (getTextColor color tokens cache) = Inl e"
  shows "e = Error ''Invalid design tokens: tokens and tokens.colors are required''"
proof -
  from assms have "tokens = None \<or> (\<exists>t. tokens = Some t \<and> colors t = None)"
    using getTextColor_throws_iff [of color tokens cache] by blast
  with assms show ?thesis by (auto simp: getTextColor_def)
qed

text \<open>
  C4. Both resolvers are to throw the configuration error on a missing table. The
  \<open>getTextColor\<close> of \<open>src/presentation/utils/textColorUtils.ts\<close> has no guard: on a
  \<open>null\<close> table it returns a literal color unchanged, and throws a \<open>TypeError\<close> for a
  variant, where the memoizing module throws the configuration error.
\<close>

theorem getTextColor_textColorUtils_unguarded:
  "getTextColor_textColorUtils (Some ''#FF5722'') (None :: DesignTokens option)
     = Inr (Some ''#FF5722'')
   \<and> getTextColor_textColorUtils (Some ''textPrimary'') (None :: DesignTokens option)
     = Inl TypeError
   \<and> getTextColor_textColorUtils (Some ''textPrimary'')
       (Some \<lparr>colors = None, typography = None\<rparr>) = Inl TypeError
   \<and> fst (getTextColor (Some ''#FF5722'') (None :: DesignTokens option) Map.empty)
     = Inl (Error ''Invalid design tokens: tokens and tokens.colors are required'')"
  by code_simp

section \<open>Lookup and memoization in getTextStyle\<close>

lemma clearTypographyCache_empty: "clearTypographyCache cache key = None"
  by (simp add: clearTypographyCache_def)

lemma clearColorCache_empty: "clearColorCache cache key = None"
  by (simp add: clearColorCache_def)

text \<open>The names read with \<open>property\<close> are none of \<open>Object.prototype\<close>, and on such a
  name \<open>member\<close> is \<open>property\<close>.\<close>

lemma member_property:
  "name \<notin> set Object_prototype \<Longrightarrow>
     member obj name = (case property obj name of Some v \<Rightarrow> Own v | None \<Rightarrow> Undefined)"
  by (simp add: member_def property_def split: option.splits)

lemma member_own: "property obj name = Some v \<Longrightarrow> member obj name = Own v"
  by (simp add: member_def property_def)

lemma fixed_names_not_inherited:
  "list_all (\<lambda>v. v \<notin> set Object_prototype) COLOR_VARIANT_SET
   \<and> list_all (\<lambda>v. v \<notin> set Object_prototype) validVariants
   \<and> list_all (\<lambda>v. v \<notin> set Object_prototype)
        [''bodyLarge'', ''textPrimary'', ''textSecondary'', ''textTertiary'', ''textDisabled'',
         ''textInverse'', ''onSurface'', ''onBackground'', ''onPrimary'', ''onSecondary'',
         ''onSuccess'', ''onError'', ''onWarning'', ''onInfo'', ''success'', ''error'',
         ''warning'', ''info'']"
  by code_simp

lemma bodyLarge_not_inherited: "''bodyLarge'' \<notin> set Object_prototype"
  by (simp add: Object_prototype_def)

text \<open>
  C7, as the code has it. On a table with a \<open>typography\<close> map, and a cache that holds
  under the key of the call either nothing or what the table resolves to,
  \<open>getTextStyle\<close> returns the entry of the variant when the map has one. When it has
  none, and the variant is not a name of \<open>Object.prototype\<close>, it returns the
  \<open>bodyLarge\<close> entry.
\<close>

theorem getTextStyle_lookup:
  assumes "typography t = Some ty"
    and "cache (typographyCacheKey variant ty) = None
         \<or> cache (typographyCacheKey variant ty)
             = Some (case member ty variant of
                       Undefined \<Rightarrow> member ty ''bodyLarge''
                     | Own style \<Rightarrow> Own style
                     | Inherited name \<Rightarrow> Inherited name)"
  shows "(property ty variant = None \<longrightarrow> variant \<notin> set Object_prototype \<longrightarrow>
            property ty ''bodyLarge'' = Some b \<longrightarrow>
            fst (getTextStyle variant (Some t) cache) = Inr (Own b))
         \<and> (property ty variant = Some e \<longrightarrow>
            fst (getTextStyle variant (Some t) cache) = Inr (Own e))"
proof -
  have r: "fst (getTextStyle variant (Some t) cache)
             = Inr (case member ty variant of
                      Undefined \<Rightarrow> member ty ''bodyLarge''
                    | Own style \<Rightarrow> Own style
                    | Inherited name \<Rightarrow> Inherited name)"
    using assms
    by (auto simp: getTextStyle_def MaterialTypographyMapper_getStyle_def Let_def
             split: member.splits)
  show ?thesis
    unfolding r
    by (auto simp: member_property member_own bodyLarge_not_inherited)
qed

theorem getTextStyle_lookup_witness:
  "typography mockTokens = Some mockTypography
   \<and> property mockTypography ''unknownVariant'' = None
   \<and> ''unknownVariant'' \<notin> set Object_prototype
   \<and> fst (getTextStyle ''unknownVariant'' (Some mockTokens) Map.empty)
       = Inr (Own \<lparr>fontSize = 16, fontWeight = ''400''\<rparr>)
   \<and> fst (getTextStyle ''headlineMedium'' (Some mockTokens) Map.empty)
       = Inr (Own \<lparr>fontSize = 28, fontWeight = ''400''\<rparr>)"
proof -
  have t: "typography mockTokens = Some mockTypography"
    by (simp add: mockTokens_def)
  have 1: "property mockTypography ''unknownVariant'' = None"
    by (simp add: property_def mockTypography_def)
  have 2: "property mockTypography ''bodyLarge'' = Some \<lparr>fontSize = 16, fontWeight = ''400''\<rparr>"
    by (simp add: property_def mockTypography_def)
  have 3: "property mockTypography ''headlineMedium''
             = Some \<lparr>fontSize = 28, fontWeight = ''400''\<rparr>"
    by (simp add: property_def mockTypography_def)
  have 4: "''unknownVariant'' \<notin> set Object_prototype"
    by (simp add: Object_prototype_def)
  show ?thesis
    using t 1 2 3 4
      getTextStyle_lookup [of mockTokens mockTypography "Map.empty" "''unknownVariant''"
        "\<lparr>fontSize = 16, fontWeight = ''400''\<rparr>"]
      getTextStyle_lookup [of mockTokens mockTypography "Map.empty" "''headlineMedium''" _
        "\<lparr>fontSize = 28, fontWeight = ''400''\<rparr>"]
    by simp
qed

text \<open>C7 as stated, with no condition on the cache or on the name, fails. After a call
  with \<open>tokens_a\<close>, whose map has a \<open>caption\<close> entry, the call with \<open>tokens_b\<close>, whose map
  has none, returns that entry and not the \<open>bodyLarge\<close> entry of \<open>tokens_b\<close>: the two maps
  have the same number of entries and the same \<open>bodyLarge\<close> font size, hence the same key.
  And on an empty cache the variant \<open>toString\<close>, which the map of \<open>mockTokens\<close> has not,
  gives the function that every object inherits under this name, not the \<open>bodyLarge\<close>
  entry.\<close>

theorem getTextStyle_stale_fallback:
  "property (the (typography tokens_b)) ''caption'' = None
   \<and> property (the (typography tokens_b)) ''bodyLarge''
       = Some \<lparr>fontSize = 16, fontWeight = ''400''\<rparr>
   \<and> fst (getTextStyle ''caption'' (Some tokens_b)
          (snd (getTextStyle ''caption'' (Some tokens_a) Map.empty)))
       = Inr (Own \<lparr>fontSize = 11, fontWeight = ''500''\<rparr>)
   \<and> fst (getTextStyle ''caption'' (Some tokens_b)
          (snd (getTextStyle ''caption'' (Some tokens_a) Map.empty)))
       \<noteq> Inr (Own \<lparr>fontSize = 16, fontWeight = ''400''\<rparr>)
   \<and> property mockTypography ''toString'' = None
   \<and> property mockTypography ''bodyLarge'' = Some \<lparr>fontSize = 16, fontWeight = ''400''\<rparr>
   \<and> fst (getTextStyle ''toString'' (Some mockTokens) Map.empty) = Inr (Inherited ''toString'')
   \<and> fst (getTextStyle ''toString'' (Some mockTokens) Map.empty)
       \<noteq> Inr (Own \<lparr>fontSize = 16, fontWeight = ''400''\<rparr>)"
  by code_simp

text \<open>
  C8. The key of the typography cache is a heuristic: there are two tables with the same
  number of typography entries and the same \<open>bodyLarge\<close> font size, and a variant \<open>v\<close> on
  whose entry they differ, such that \<open>getTextStyle v\<close> on the first and then on the second
  returns, the second time, the entry of the first table, which is not what the second
  table resolves to on an empty cache.
\<close>

theorem typography_cache_stale:
  "\<exists>t1 t2 ty1 ty2 v e1 e2.
     typography (t1 :: DesignTokens) = Some ty1 \<and> typography (t2 :: DesignTokens) = Some ty2
     \<and> length (Object_keys ty1) = length (Object_keys ty2)
     \<and> map_option fontSize (property ty1 ''bodyLarge'')
         = map_option fontSize (property ty2 ''bodyLarge'')
     \<and> property ty1 v = Some e1 \<and> property ty2 v = Some e2 \<and> e1 \<noteq> e2
     \<and> fst (getTextStyle v (Some t1) Map.empty) = Inr (Own e1)
     \<and> fst (getTextStyle v (Some t2) Map.empty) = Inr (Own e2)
     \<and> fst (getTextStyle v (Some t2) (snd (getTextStyle v (Some t1) Map.empty)))
         = Inr (Own e1)
     \<and> fst (getTextStyle v (Some t2) (snd (getTextStyle v (Some t1) Map.empty)))
         \<noteq> fst (getTextStyle v (Some t2) Map.empty)"
proof -
  have c: "typography mockTokens = Some mockTypography
     \<and> typography tokens_bold = Some typography_bold
     \<and> length (Object_keys mockTypography) = length (Object_keys typography_bold)
     \<and> map_option fontSize (property mockTypography ''bodyLarge'')
         = map_option fontSize (property typography_bold ''bodyLarge'')
     \<and> property mockTypography ''headlineMedium''
         = Some \<lparr>fontSize = 28, fontWeight = ''400''\<rparr>
     \<and> property typography_bold ''headlineMedium''
         = Some \<lparr>fontSize = 30, fontWeight = ''700''\<rparr>
     \<and> \<lparr>fontSize = 28, fontWeight = ''400''\<rparr> \<noteq> \<lparr>fontSize = 30, fontWeight = ''700''\<rparr>
     \<and> fst (getTextStyle ''headlineMedium'' (Some mockTokens) Map.empty)
         = Inr (Own \<lparr>fontSize = 28, fontWeight = ''400''\<rparr>)
     \<and> fst (getTextStyle ''headlineMedium'' (Some tokens_bold) Map.empty)
         = Inr (Own \<lparr>fontSize = 30, fontWeight = ''700''\<rparr>)
     \<and> fst (getTextStyle ''headlineMedium'' (Some tokens_bold)
              (snd (getTextStyle ''headlineMedium'' (Some mockTokens) Map.empty)))
         = Inr (Own \<lparr>fontSize = 28, fontWeight = ''400''\<rparr>)
     \<and> fst (getTextStyle ''headlineMedium'' (Some tokens_bold)
              (snd (getTextStyle ''headlineMedium'' (Some mockTokens) Map.empty)))
         \<noteq> fst (getTextStyle ''headlineMedium'' (Some tokens_bold) Map.empty)"
    by code_simp
  show ?thesis
    apply (rule exI [of _ mockTokens])
    apply (rule exI [of _ tokens_bold])
    apply (rule exI [of _ mockTypography])
    apply (rule exI [of _ typography_bold])
    apply (rule exI [of _ "''headlineMedium''"])
    apply (rule exI [of _ "\<lparr>fontSize = 28, fontWeight = ''400''\<rparr>"])
    apply (rule exI [of _ "\<lparr>fontSize = 30, fontWeight = ''700''\<rparr>"])
    apply (rule c)
    done
qed

section \<open>The legacy alias surfaceVariant\<close>

lemma isColorVariant_alias:
  "isColorVariant ''surfaceVariant''" "isColorVariant ''textSecondary''"
  by (simp_all add: isColorVariant_def COLOR_VARIANT_SET_def)

lemma isColorVariant_textColorUtils_alias:
  "isColorVariant_textColorUtils ''surfaceVariant''"
  "isColorVariant_textColorUtils ''textSecondary''"
  by (simp_all add: isColorVariant_textColorUtils_def validVariants_def)

lemma getColor_alias:
  assumes "colors t = Some cs"
  shows "MaterialColorMapper_getColor ''surfaceVariant'' t = Inr (property cs ''textSecondary'')"
    and "MaterialColorMapper_getColor ''textSecondary'' t = Inr (property cs ''textSecondary'')"
  using assms by (simp_all add: MaterialColorMapper_getColor_def colors_field_def)

lemma colorCacheKey_alias_distinct:
  "colorCacheKey ''surfaceVariant'' cs \<noteq> colorCacheKey ''textSecondary'' cs"
  by (simp add: colorCacheKey_def)

text \<open>
  C6, as the code has it. On a table with a \<open>colors\<close> map, the color mapper resolves
  \<open>surfaceVariant\<close> and \<open>textSecondary\<close> alike, to \<open>tokens.colors.textSecondary\<close>. The
  memoizing \<open>getTextColor\<close> returns that value for both names, called one after the
  other or each on its own, when the cache holds under the two keys nothing or that
  value. The \<open>getTextColor\<close> without a cache returns it for both names when it is a
  non-empty string.
\<close>

theorem surfaceVariant_alias:
  assumes "colors t = Some cs"
    and "cache (colorCacheKey ''surfaceVariant'' cs) = None
         \<or> cache (colorCacheKey ''surfaceVariant'' cs) = Some (property cs ''textSecondary'')"
    and "cache (colorCacheKey ''textSecondary'' cs) = None
         \<or> cache (colorCacheKey ''textSecondary'' cs) = Some (property cs ''textSecondary'')"
  shows "MaterialColorMapper_getColor ''surfaceVariant'' t = Inr (property cs ''textSecondary'')
     \<and> MaterialColorMapper_getColor ''textSecondary'' t = Inr (property cs ''textSecondary'')
     \<and> fst (getTextColor (Some ''surfaceVariant'') (Some t) cache)
         = Inr (property cs ''textSecondary'')
     \<and> fst (getTextColor (Some ''textSecondary'') (Some t) cache)
         = Inr (property cs ''textSecondary'')
     \<and> fst (getTextColor (Some ''textSecondary'') (Some t)
              (snd (getTextColor (Some ''surfaceVariant'') (Some t) cache)))
         = Inr (property cs ''textSecondary'')
     \<and> (property cs ''textSecondary'' = Some v \<and> v \<noteq> [] \<longrightarrow>
           getTextColor_textColorUtils (Some ''surfaceVariant'') (Some t) = Inr (Some v)
           \<and> getTextColor_textColorUtils (Some ''textSecondary'') (Some t) = Inr (Some v))"
proof -
  note g = getColor_alias [OF assms(1)]
  have 1: "fst (getTextColor (Some ''surfaceVariant'') (Some t) cache)
             = Inr (property cs ''textSecondary'')"
    using assms(1,2) g(1) isColorVariant_alias(1)
    by (auto simp: getTextColor_def Let_def)
  have 2: "fst (getTextColor (Some ''textSecondary'') (Some t) c)
             = Inr (property cs ''textSecondary'')"
    if "c (colorCacheKey ''textSecondary'' cs) = None
        \<or> c (colorCacheKey ''textSecondary'' cs) = Some (property cs ''textSecondary'')" for c
    using assms(1) that g(2) isColorVariant_alias(2)
    by (auto simp: getTextColor_def Let_def)
  have 3: "snd (getTextColor (Some ''surfaceVariant'') (Some t) cache)
             (colorCacheKey ''textSecondary'' cs) = cache (colorCacheKey ''textSecondary'' cs)"
    using assms(1) g(1) isColorVariant_alias(1) colorCacheKey_alias_distinct [of cs]
    by (auto simp: getTextColor_def Let_def split: option.splits)
  have 4: "getTextColor_textColorUtils (Some ''surfaceVariant'') (Some t) = Inr (Some v)
           \<and> getTextColor_textColorUtils (Some ''textSecondary'') (Some t) = Inr (Some v)"
    if "property cs ''textSecondary'' = Some v" "v \<noteq> []"
    using assms(1) that isColorVariant_textColorUtils_alias
    by (simp add: getTextColor_textColorUtils_def property_def colorMap_def)
  show ?thesis
    using g 1 2 [of cache] 2 [of "snd (getTextColor (Some ''surfaceVariant'') (Some t) cache)"]
      3 4 assms(3)
    by simp
qed

theorem surfaceVariant_alias_witness:
  "colors mockTokens = Some mockColors
   \<and> fst (getTextColor (Some ''surfaceVariant'') (Some mockTokens) Map.empty)
       = Inr (Some ''#666666'')
   \<and> fst (getTextColor (Some ''textSecondary'') (Some mockTokens) Map.empty)
       = Inr (Some ''#666666'')
   \<and> getTextColor_textColorUtils (Some ''surfaceVariant'') (Some mockTokens)
       = Inr (Some ''#666666'')
   \<and> getTextColor_textColorUtils (Some ''textSecondary'') (Some mockTokens)
       = Inr (Some ''#666666'')"
proof -
  have c: "colors mockTokens = Some mockColors"
    by (simp add: mockTokens_def)
  have v: "property mockColors ''textSecondary'' = Some ''#666666''"
    by (simp add: property_def mockColors_def)
  show ?thesis
    using c v surfaceVariant_alias [of mockTokens mockColors "Map.empty" "''#666666''"]
    by simp
qed

text \<open>C6 as stated, with no condition on the cache or on the table, fails. With the entry that
  a call on \<open>mockTokens\<close> left in the cache, \<open>tokens_grey\<close> (another \<open>textSecondary\<close>,
  the same key) resolves \<open>surfaceVariant\<close> afresh and \<open>textSecondary\<close> from the cache.
  Without a cache, on a table whose \<open>textSecondary\<close> is the empty string, each name
  comes back as itself.\<close>

theorem surfaceVariant_alias_fails:
  "fst (getTextColor (Some ''surfaceVariant'') (Some tokens_grey)
          (snd (getTextColor (Some ''textSecondary'') (Some mockTokens) Map.empty)))
     = Inr (Some ''#777777'')
   \<and> fst (getTextColor (Some ''textSecondary'') (Some tokens_grey)
          (snd (getTextColor (Some ''surfaceVariant'') (Some tokens_grey)
             (snd (getTextColor (Some ''textSecondary'') (Some mockTokens) Map.empty)))))
     = Inr (Some ''#666666'')
   \<and> fst (getTextColor (Some ''surfaceVariant'') (Some tokens_grey)
          (snd (getTextColor (Some ''textSecondary'') (Some mockTokens) Map.empty)))
     \<noteq> fst (getTextColor (Some ''textSecondary'') (Some tokens_grey)
          (snd (getTextColor (Some ''textSecondary'') (Some mockTokens) Map.empty)))
   \<and> getTextColor_textColorUtils (Some ''surfaceVariant'') (Some tokens_blank)
     = Inr (Some ''surfaceVariant'')
   \<and> getTextColor_textColorUtils (Some ''textSecondary'') (Some tokens_blank)
     = Inr (Some ''textSecondary'')
   \<and> getTextColor_textColorUtils (Some ''surfaceVariant'') (Some tokens_blank)
     \<noteq> getTextColor_textColorUtils (Some ''textSecondary'') (Some tokens_blank)"
  by code_simp

section \<open>The resolvers leave the token tables alone\<close>

text \<open>No function reached from a resolver changes the state at all, but for the
  two statements that store into a cache.\<close>

lemma getStyle_st_state: "snd (MaterialTypographyMapper_getStyle_st variant tokens s) = s"
  by (simp add: MaterialTypographyMapper_getStyle_st_def split: option.splits member.splits)

lemma colors_field_st_state: "snd (colors_field_st name tokens s) = s"
  by (simp add: colors_field_st_def split: option.splits)

lemma getColor_st_state: "snd (MaterialColorMapper_getColor_st color tokens s) = s"
  by (simp add: MaterialColorMapper_getColor_st_def colors_field_st_state)

lemma getTextStyle_st_heap:
  "heap (snd (getTextStyle_st variant tokens s)) = heap s
   \<and> color_cache (snd (getTextStyle_st variant tokens s)) = color_cache s"
proof -
  obtain r s' where m: "MaterialTypographyMapper_getStyle_st variant (the tokens) s = (r, s')"
    by (cases "MaterialTypographyMapper_getStyle_st variant (the tokens) s")
  with getStyle_st_state [of variant "the tokens" s] have "s' = s" by simp
  with m show ?thesis
    by (auto simp: getTextStyle_st_def Let_def split: option.splits sum.splits)
qed

lemma getTextColor_st_heap:
  "heap (snd (getTextColor_st color tokens s)) = heap s
   \<and> typography_cache (snd (getTextColor_st color tokens s)) = typography_cache s"
proof -
  obtain r s' where m: "MaterialColorMapper_getColor_st (the color) (the tokens) s = (r, s')"
    by (cases "MaterialColorMapper_getColor_st (the color) (the tokens) s")
  with getColor_st_state [of "the color" "the tokens" s] have "s' = s" by simp
  with m show ?thesis
    by (auto simp: getTextColor_st_def Let_def split: option.splits sum.splits)
qed

lemma getTextColor_textColorUtils_st_state:
  "snd (getTextColor_textColorUtils_st color tokens s) = s"
  by (auto simp: getTextColor_textColorUtils_st_def colors_field_st_state
           split: option.splits)

text \<open>On the program state the functions compute what they compute on a table and a
  cache: the result is that of the function above on the table the reference points
  to, and the state that is left differs from the state before in the cache of the
  module alone.\<close>

lemma getStyle_st_eq:
  "MaterialTypographyMapper_getStyle_st variant tokens s
     = (MaterialTypographyMapper_getStyle variant (heap s tokens), s)"
  by (simp add: MaterialTypographyMapper_getStyle_st_def MaterialTypographyMapper_getStyle_def
           split: option.splits member.splits)

lemma getColor_st_eq:
  "MaterialColorMapper_getColor_st color tokens s
     = (MaterialColorMapper_getColor color (heap s tokens), s)"
  by (simp add: MaterialColorMapper_getColor_st_def MaterialColorMapper_getColor_def
           colors_field_st_def colors_field_def split: option.splits)

lemma getTextStyle_st_eq:
  "getTextStyle_st variant tokens s
     = (fst (getTextStyle variant (map_option (heap s) tokens) (typography_cache s)),
        s\<lparr>typography_cache :=
            snd (getTextStyle variant (map_option (heap s) tokens) (typography_cache s))\<rparr>)"
  by (auto simp: getTextStyle_st_def getTextStyle_def getStyle_st_eq Let_def
           split: option.splits sum.splits)

lemma getTextColor_st_eq:
  "getTextColor_st color tokens s
     = (fst (getTextColor color (map_option (heap s) tokens) (color_cache s)),
        s\<lparr>color_cache :=
            snd (getTextColor color (map_option (heap s) tokens) (color_cache s))\<rparr>)"
  by (auto simp: getTextColor_st_def getTextColor_def getColor_st_eq Let_def
           split: option.splits sum.splits)

lemma getTextColor_textColorUtils_st_eq:
  "getTextColor_textColorUtils_st color tokens s
     = (getTextColor_textColorUtils color (map_option (heap s) tokens), s)"
  by (auto simp: getTextColor_textColorUtils_st_def getTextColor_textColorUtils_def
           colors_field_st_def colors_field_def split: option.splits)

text \<open>
  C9. No call of a resolver changes a token table: after \<open>getTextStyle\<close> or
  \<open>getTextColor\<close> on any reference and in any state, every object of the heap, each
  token table with its \<open>colors\<close> and \<open>typography\<close> maps, is what it was before the call.
\<close>

theorem resolvers_keep_token_tables:
  "heap (snd (getTextStyle_st variant tokens s)) = heap s
   \<and> heap (snd (getTextColor_st color tokens s)) = heap s
   \<and> heap (snd (getTextColor_textColorUtils_st color tokens s)) = heap s"
  by (simp add: getTextStyle_st_heap getTextColor_st_heap getTextColor_textColorUtils_st_state)

end
